theory Spec2Isabelle
  imports Main "HOL-Library.Char_ord" "HOL-Library.List_Lexorder"
begin

unbundle bit_operations_syntax

section \<open>Python values shared by the modules\<close>

text \<open>
  Python strings are modelled as \<open>string\<close>; every string the modelled code builds or
  compares is ASCII (bit strings, hexadecimal digits, identifiers), so a character is one
  \<open>char\<close>. A raised exception is a value of \<open>error\<close>; a function that can raise returns
  \<open>error + 'a\<close>, with \<open>Inl\<close> for the exception.
\<close>

datatype error =
    ValueError string
  | KeyError
  | IndexError
  | ZeroDivisionError
  | Exception string

text \<open>\<open>str(n)\<close> for a non-negative integer: its decimal digits.\<close>

definition digit_char :: "nat \<Rightarrow> char" where
  "digit_char d = ''0123456789'' ! d"

fun str_nat :: "nat \<Rightarrow> string" where
  "str_nat n = (if n < 10 then [digit_char n] else str_nat (n div 10) @ [digit_char (n mod 10)])"

declare str_nat.simps [simp del]

text \<open>\<open>int(x)\<close> for a one-character string \<open>x\<close>: a decimal digit, or ValueError.\<close>

definition int_of_char :: "char \<Rightarrow> error + nat" where
  "int_of_char c =
     (let n = (of_char c :: nat)
      in if 48 \<le> n \<and> n \<le> 57 then Inr (n - 48)
         else Inl (ValueError ''invalid literal for int()''))"

text \<open>\<open>s.zfill(width)\<close>: pad with zeros on the left, after a leading sign if there is one.\<close>

definition zfill :: "nat \<Rightarrow> string \<Rightarrow> string" where
  "zfill width s =
     (if width \<le> length s then s
      else (case s of
              [] \<Rightarrow> replicate width CHR ''0''
            | c # cs \<Rightarrow>
                if c = CHR ''+'' \<or> c = CHR ''-''
                then c # replicate (width - length s) CHR ''0'' @ cs
                else replicate (width - length s) CHR ''0'' @ s))"

section \<open>quantum_core.py: XOR helpers\<close>

text \<open>
  The list comprehension of \<open>binary_xor\<close>:
  \<open>''.join([str(int(x) ^ int(y)) for x, y in zip(a, b)])\<close>. The first character that
  \<open>int\<close> rejects raises.
\<close>

fun xor_join :: "(char \<times> char) list \<Rightarrow> error + string" where
  "xor_join [] = Inr []"
| "xor_join ((x, y) # ps) =
     (case int_of_char x of
        Inl e \<Rightarrow> Inl e
      | Inr m \<Rightarrow>
          (case int_of_char y of
             Inl e \<Rightarrow> Inl e
           | Inr n \<Rightarrow>
               (case xor_join ps of
                  Inl e \<Rightarrow> Inl e
                | Inr r \<Rightarrow> Inr (str_nat (m XOR n) @ r))))"

definition binary_xor :: "string \<Rightarrow> string \<Rightarrow> error + string" where
  "binary_xor a b =
     (let max_len = max (length a) (length b);
          a' = zfill max_len a;
          b' = zfill max_len b
      in xor_join (zip a' b'))"

definition is_binary :: "string \<Rightarrow> bool" where
  "is_binary s = list_all (\<lambda>c. c = CHR ''0'' \<or> c = CHR ''1'') s"

definition xor_encrypt :: "string \<Rightarrow> string \<Rightarrow> error + string" where
  "xor_encrypt data key =
     (if \<not> is_binary data then Inl (ValueError ''Data must be binary string'')
      else if \<not> is_binary key then Inl (ValueError ''Key must be binary string'')
      else binary_xor data key)"

definition xor_decrypt :: "string \<Rightarrow> string \<Rightarrow> error + string" where
  "xor_decrypt encrypted_data key =
     (if \<not> is_binary encrypted_data then Inl (ValueError ''Encrypted data must be binary string'')
      else if \<not> is_binary key then Inl (ValueError ''Key must be binary string'')
      else binary_xor encrypted_data key)"

text \<open>The XOR of two bit characters, as a character (used to state results).\<close>

definition xor_bit :: "char \<Rightarrow> char \<Rightarrow> char" where
  "xor_bit x y = (if x = y then CHR ''0'' else CHR ''1'')"

section \<open>quantegrity_app.py: character XOR\<close>

text \<open>\<open>chr(ord(d) ^ ord(k))\<close>.\<close>

definition xor_chr :: "char \<Rightarrow> char \<Rightarrow> char" where
  "xor_chr d k = char_of ((of_char d :: nat) XOR of_char k)"

text \<open>
  \<open>xor_encrypt\<close> of quantegrity_app.py: a key shorter than the data is repeated
  (\<open>len(data) // len(key)\<close> divides by zero on an empty key), a longer key is cut.
\<close>

definition xor_encrypt_app :: "string \<Rightarrow> string \<Rightarrow> error + string" where
  "xor_encrypt_app data key =
     (if length key < length data then
        (if length key = 0 then Inl ZeroDivisionError
         else let key' = take (length data) (concat (replicate (length data div length key + 1) key))
              in Inr (map (\<lambda>i. xor_chr (data ! i) (key' ! i)) [0..<length data]))
      else if length key > length data then
        (let key' = take (length data) key
         in Inr (map (\<lambda>i. xor_chr (data ! i) (key' ! i)) [0..<length data]))
      else Inr (map (\<lambda>i. xor_chr (data ! i) (key ! i)) [0..<length data]))"

definition xor_decrypt_app :: "string \<Rightarrow> string \<Rightarrow> error + string" where
  "xor_decrypt_app encrypted_data key = xor_encrypt_app encrypted_data key"

section \<open>quantum_core.py: key derivation\<close>

text \<open>
  \<open>sedjo\<close> builds a quantum circuit from the two keys, runs it once on a simulator and
  splits the measurement into two shares. The simulator is outside the code, so the
  developments below take \<open>sedjo\<close> as a parameter: any function from the two input keys
  to a pair of shares. \<open>sedjo_with_logging\<close> appends a record of the call (with a time
  stamp and random figures) to \<open>quantum_log\<close> and returns what \<open>sedjo\<close> returns; the
  log is not read by the functions modelled here and is left out.
\<close>

type_synonym key_agreement = "string \<Rightarrow> string \<Rightarrow> string \<times> string"

definition sedjo_with_logging :: "key_agreement \<Rightarrow> string \<Rightarrow> string \<Rightarrow> string \<times> string" where
  "sedjo_with_logging sedjo key_a key_b = sedjo key_a key_b"

definition decrypt_q_k1_with_biometric :: "string \<Rightarrow> string \<Rightarrow> error + string" where
  "decrypt_q_k1_with_biometric encrypted_q_k1 biometric = xor_decrypt encrypted_q_k1 biometric"

definition perform_authentication_crypto ::
  "key_agreement \<Rightarrow> string \<Rightarrow> string \<Rightarrow> error + (string \<times> string \<times> string)" where
  "perform_authentication_crypto sedjo encrypted_q_k1 biometric =
     (case decrypt_q_k1_with_biometric encrypted_q_k1 biometric of
        Inl e \<Rightarrow> Inl e
      | Inr decrypted_q_k1 \<Rightarrow>
          (case sedjo_with_logging sedjo decrypted_q_k1 decrypted_q_k1 of
             (alice_aq_k1, bob_aq_k1) \<Rightarrow>
               let bob_aq_k1' = (if alice_aq_k1 \<noteq> bob_aq_k1 then alice_aq_k1 else bob_aq_k1)
               in Inr (decrypted_q_k1, alice_aq_k1, bob_aq_k1')))"

definition perform_voting_crypto :: "key_agreement \<Rightarrow> string \<Rightarrow> string \<times> string" where
  "perform_voting_crypto sedjo aq_k1 =
     (case sedjo_with_logging sedjo aq_k1 aq_k1 of
        (alice_vq_k1, bob_vq_k1) \<Rightarrow>
          let bob_vq_k1' = (if alice_vq_k1 \<noteq> bob_vq_k1 then alice_vq_k1 else bob_vq_k1)
          in (alice_vq_k1, bob_vq_k1'))"

text \<open>A run of the key agreement whose two shares differ, as a test input.\<close>

definition mismatching_sedjo :: key_agreement where
  "mismatching_sedjo key_a key_b = (''0000'', ''1111'')"

section \<open>quantegrity_app.py: random strings and signatures\<close>

text \<open>
  \<open>qrng(n)\<close> measures \<open>n\<close> qubits in superposition and returns the outcome as a string
  of \<open>n\<close> characters \<open>0\<close> and \<open>1\<close>. The random source is a tape of bits with a read
  position; a call reads the next \<open>n\<close> bits.
\<close>

type_synonym random_source = "(nat \<Rightarrow> bool) \<times> nat"

definition qrng :: "nat \<Rightarrow> random_source \<Rightarrow> string \<times> random_source" where
  "qrng n rs =
     (map (\<lambda>i. if fst rs i then CHR ''1'' else CHR ''0'') [snd rs..<snd rs + n],
      (fst rs, snd rs + n))"

text \<open>\<open>int(chunk, 2)\<close> on a string of bits.\<close>

definition int_base2 :: "string \<Rightarrow> nat" where
  "int_base2 s = foldl (\<lambda>acc c. 2 * acc + (if c = CHR ''1'' then 1 else 0)) 0 s"

text \<open>
  One hexadecimal digit: \<open>str(hex_val)\<close> below ten, \<open>chr(ord('A') + hex_val - 10)\<close>
  from ten to fifteen.
\<close>

definition hex_digit :: "nat \<Rightarrow> char" where
  "hex_digit v = (if v < 10 then digit_char v else ''ABCDEF'' ! (v - 10))"

text \<open>The loop of \<open>generate_qrng_string\<close> over \<open>range(0, len(binary_key), 4)\<close>.\<close>

fun hex_chunks :: "string \<Rightarrow> string" where
  "hex_chunks [] = []"
| "hex_chunks (c # cs) =
     (let chunk = (if 4 \<le> length (c # cs) then take 4 (c # cs)
                   else (c # cs) @ replicate (4 - length (c # cs)) CHR ''0'')
      in hex_digit (int_base2 chunk) # hex_chunks (drop 3 cs))"

definition generate_qrng_string :: "nat \<Rightarrow> random_source \<Rightarrow> string \<times> random_source" where
  "generate_qrng_string n rs =
     (case qrng (n * 4) rs of (binary_key, rs') \<Rightarrow> (take n (hex_chunks binary_key), rs'))"

text \<open>\<open>s.ljust(width, fill)\<close>.\<close>

definition ljust :: "nat \<Rightarrow> char \<Rightarrow> string \<Rightarrow> string" where
  "ljust width fill s = s @ replicate (width - length s) fill"

text \<open>\<open>f"{n:02X}"\<close> for a character code \<open>n\<close> below 256: two hexadecimal digits.\<close>

definition hex_02X :: "nat \<Rightarrow> string" where
  "hex_02X n = [hex_digit (n div 16), hex_digit (n mod 16)]"

definition generate_signature :: "string \<Rightarrow> random_source \<Rightarrow> (error + string) \<times> random_source" where
  "generate_signature data rs =
     (case generate_qrng_string 32 rs of
        (sig_key, rs') \<Rightarrow>
          let data_32 = ljust 32 CHR ''0'' (take 32 data)
          in (case xor_encrypt_app data_32 sig_key of
                Inl e \<Rightarrow> (Inl e, rs')
              | Inr signature \<Rightarrow> (Inr (concat (map (\<lambda>c. hex_02X (of_char c)) signature)), rs')))"

section \<open>Python dictionaries\<close>

text \<open>
  A \<open>dict\<close> is an association list with distinct keys, in insertion order: assigning
  to a key it has replaces the value in place, assigning to a new key appends.
\<close>

fun dict_set :: "'k \<Rightarrow> 'v \<Rightarrow> ('k \<times> 'v) list \<Rightarrow> ('k \<times> 'v) list" where
  "dict_set k v [] = [(k, v)]"
| "dict_set k v (p # ps) = (if fst p = k then (k, v) # ps else p # dict_set k v ps)"

definition dict_get :: "('k \<times> 'v) list \<Rightarrow> 'k \<Rightarrow> 'v option" where
  "dict_get d k = map_of d k"

definition dict_contains :: "'k \<Rightarrow> ('k \<times> 'v) list \<Rightarrow> bool" where
  "dict_contains k d = (map_of d k \<noteq> None)"

definition dict_values :: "('k \<times> 'v) list \<Rightarrow> 'v list" where
  "dict_values d = map snd d"

section \<open>quantegrity_app.py: the bulletin board\<close>

text \<open>\<open>timestamp\<close> is \<open>datetime.now()\<close>; the operations take the current time as \<open>now\<close>.\<close>

record BulletinBoardEntry =
  entry_id :: string
  ballot_id :: string
  confirmation_codes :: "string list"
  timestamp :: nat
  digital_signature :: string
  entry_type :: string
  quantum_proof :: "string option"

record BulletinBoard =
  entries :: "BulletinBoardEntry list"
  published_ballots :: "(string \<times> string) list"
  commitments :: "(string \<times> string) list"
  is_sealed :: bool

definition BulletinBoard_init :: BulletinBoard where
  "BulletinBoard_init =
     \<lparr>entries = [], published_ballots = [], commitments = [], is_sealed = False\<rparr>"

text \<open>\<open>sep.join(xs)\<close>.\<close>

fun join_str :: "string \<Rightarrow> string list \<Rightarrow> string" where
  "join_str sep [] = []"
| "join_str sep [x] = x"
| "join_str sep (x # y # zs) = x @ sep @ join_str sep (y # zs)"

definition generate_entry_id :: "random_source \<Rightarrow> string \<times> random_source" where
  "generate_entry_id rs = generate_qrng_string 16 rs"

text \<open>\<open>BulletinBoard._generate_signature\<close>.\<close>

definition board_generate_signature ::
  "string \<Rightarrow> string list \<Rightarrow> random_source \<Rightarrow> (error + string) \<times> random_source" where
  "board_generate_signature bid codes rs =
     generate_signature (bid @ '':'' @ join_str '':'' codes) rs"

text \<open>
  The operations that add an entry return the entry id, the board and the random source
  after the call. The exceptions of \<open>post_vote\<close> and \<open>post_audit\<close> are raised before the
  board is changed.
\<close>

definition post_vote ::
  "string \<Rightarrow> string list \<Rightarrow> string option \<Rightarrow> nat \<Rightarrow> BulletinBoard \<times> random_source \<Rightarrow>
   error + (string \<times> BulletinBoard \<times> random_source)" where
  "post_vote bid codes proof now st =
     (case st of (bb, rs) \<Rightarrow>
        if is_sealed bb then Inl (Exception ''Bulletin board is sealed'')
        else if dict_contains bid (published_ballots bb)
        then Inl (Exception (''Ballot '' @ bid @ '' already published''))
        else (case generate_entry_id rs of
                (eid, rs1) \<Rightarrow>
                  (case board_generate_signature bid codes rs1 of
                     (Inl e, rs2) \<Rightarrow> Inl e
                   | (Inr signature, rs2) \<Rightarrow>
                       let entry = \<lparr>entry_id = eid, ballot_id = bid,
                                    confirmation_codes = codes, timestamp = now,
                                    digital_signature = signature, entry_type = ''vote'',
                                    quantum_proof = proof\<rparr>
                       in Inr (eid,
                               bb\<lparr>entries := entries bb @ [entry],
                                  published_ballots := dict_set bid ''vote'' (published_ballots bb)\<rparr>,
                               rs2))))"

definition post_audit ::
  "string \<Rightarrow> (string \<times> string) list \<Rightarrow> nat \<Rightarrow> BulletinBoard \<times> random_source \<Rightarrow>
   error + (string \<times> BulletinBoard \<times> random_source)" where
  "post_audit bid all_codes now st =
     (case st of (bb, rs) \<Rightarrow>
        if dict_contains bid (published_ballots bb)
        then Inl (Exception (''Ballot '' @ bid @ '' already published''))
        else (case generate_entry_id rs of
                (eid, rs1) \<Rightarrow>
                  let codes_list = dict_values all_codes
                  in (case board_generate_signature bid codes_list rs1 of
                        (Inl e, rs2) \<Rightarrow> Inl e
                      | (Inr signature, rs2) \<Rightarrow>
                          let entry = \<lparr>entry_id = eid, ballot_id = bid,
                                       confirmation_codes = codes_list, timestamp = now,
                                       digital_signature = signature, entry_type = ''audit'',
                                       quantum_proof = None\<rparr>
                          in Inr (eid,
                                  bb\<lparr>entries := entries bb @ [entry],
                                     published_ballots := dict_set bid ''audit'' (published_ballots bb)\<rparr>,
                                  rs2))))"

definition get_entry :: "BulletinBoard \<Rightarrow> string \<Rightarrow> BulletinBoardEntry option" where
  "get_entry bb eid = find (\<lambda>entry. entry_id entry = eid) (entries bb)"

definition get_ballot_entry :: "BulletinBoard \<Rightarrow> string \<Rightarrow> BulletinBoardEntry option" where
  "get_ballot_entry bb bid = find (\<lambda>entry. ballot_id entry = bid) (entries bb)"

definition verify_entry ::
  "string \<Rightarrow> BulletinBoard \<times> random_source \<Rightarrow> (error + bool) \<times> random_source" where
  "verify_entry eid st =
     (case st of (bb, rs) \<Rightarrow>
        (case get_entry bb eid of
           None \<Rightarrow> (Inr False, rs)
         | Some entry \<Rightarrow>
             (case board_generate_signature (ballot_id entry) (confirmation_codes entry) rs of
                (Inl e, rs') \<Rightarrow> (Inl e, rs')
              | (Inr expected_signature, rs') \<Rightarrow>
                  (Inr (digital_signature entry = expected_signature), rs'))))"

definition seal_board :: "BulletinBoard \<Rightarrow> BulletinBoard" where
  "seal_board bb = bb\<lparr>is_sealed := True\<rparr>"

text \<open>
  A sequence of calls on one board. A call that raises leaves the board as it was, as
  it does for a caller that catches the exception.
\<close>

datatype board_op =
    PostVote string "string list" "string option" nat
  | PostAudit string "(string \<times> string) list" nat
  | SealBoard

fun board_step :: "board_op \<Rightarrow> BulletinBoard \<times> random_source \<Rightarrow> BulletinBoard \<times> random_source" where
  "board_step (PostVote bid codes proof now) st =
     (case post_vote bid codes proof now st of Inl e \<Rightarrow> st | Inr (eid, bb', rs') \<Rightarrow> (bb', rs'))"
| "board_step (PostAudit bid all_codes now) st =
     (case post_audit bid all_codes now st of Inl e \<Rightarrow> st | Inr (eid, bb', rs') \<Rightarrow> (bb', rs'))"
| "board_step SealBoard st = (seal_board (fst st), snd st)"

definition board_run :: "board_op list \<Rightarrow> BulletinBoard \<times> random_source \<Rightarrow> BulletinBoard \<times> random_source" where
  "board_run ops st = foldl (\<lambda>s op. board_step op s) st ops"

text \<open>Two tapes used as test inputs.\<close>

definition zero_tape :: "nat \<Rightarrow> bool" where
  "zero_tape i = False"

definition step_tape :: "nat \<Rightarrow> bool" where
  "step_tape i = (i < 192)"

section \<open>shared_state.py: the stored data\<close>

text \<open>
  The dataclasses of shared_state.py. Field names that occur in more than one class
  carry the class as a prefix. \<open>SharedState.data\<close> is a dictionary of dictionaries,
  written to a JSON file by \<open>_save_data\<close>; the file is outside the model, and the
  keys \<open>mixnet_tables\<close> and \<open>crypto_sessions\<close>, which no method writes, are left out.
  Time stamps are ISO strings; the methods take the current time as \<open>now\<close>.
\<close>

record QuantumKeys =
  q_k1 :: string
  q_k2 :: string
  encrypted_q_k1 :: string
  aq_k1_alice :: string
  aq_k1_bob :: string
  vq_k1_alice :: string
  vq_k1_bob :: string

record BiometricData =
  signature :: string
  is_enrolled :: bool
  enrollment_time :: string

record DeviceInfo =
  device_id :: string
  device_fingerprint :: string
  device_registration_time :: string
  verification_otp :: string
  encrypted_otp :: string
  is_verified :: bool

record Voter =
  voter_id :: string
  voter_name :: string
  national_id :: string
  quantum_keys :: QuantumKeys
  biometric_data :: BiometricData
  device_info :: DeviceInfo
  is_registered :: bool
  device_status :: string
  auth_status :: string
  vote_status :: string
  vote_receipt :: string
  registration_time :: string
  last_login_time :: string
  auth_otp :: string
  auth_encrypted_otp :: string

record Election =
  election_id :: string
  election_name :: string
  candidates :: "string list"
  is_active :: bool
  creation_time :: string
  ballot_pool_size :: nat

record Ballot =
  ballot_ballot_id :: string
  ballot_voter_id :: string
  ballot_election_id :: string
  ballot_confirmation_codes :: "(string \<times> string) list"
  is_cast :: bool
  is_spoiled :: bool
  is_allocated :: bool
  selected_candidate :: string
  encrypted_vote :: string
  cast_time :: string
  allocation_time :: string

record BulletinEntry =
  bulletin_entry_id :: string
  bulletin_ballot_id :: string
  bulletin_confirmation_codes :: "string list"
  bulletin_entry_type :: string
  bulletin_timestamp :: string
  bulletin_signature :: string
  bulletin_quantum_proof :: string

record SystemStats =
  total_voters :: nat
  total_votes :: nat
  last_updated :: string
  quantum_operations :: nat

record SharedData =
  elections :: "(string \<times> Election) list"
  voters :: "(string \<times> Voter) list"
  ballots :: "(string \<times> Ballot) list"
  ballot_pools :: "(string \<times> Ballot list) list"
  bulletin_board :: "(string \<times> BulletinEntry) list"
  system_stats :: SystemStats

text \<open>The initial state of \<open>_load_data\<close>, when there is no data file.\<close>

definition SharedData_init :: SharedData where
  "SharedData_init =
     \<lparr>elections = [], voters = [], ballots = [], ballot_pools = [], bulletin_board = [],
      system_stats = \<lparr>total_voters = 0, total_votes = 0, last_updated = [],
                      quantum_operations = 0\<rparr>\<rparr>"

definition save_data :: "string \<Rightarrow> SharedData \<Rightarrow> SharedData" where
  "save_data now sd = sd\<lparr>system_stats := (system_stats sd)\<lparr>last_updated := now\<rparr>\<rparr>"

definition add_bulletin_entry :: "BulletinEntry \<Rightarrow> string \<Rightarrow> SharedData \<Rightarrow> SharedData" where
  "add_bulletin_entry entry now sd =
     save_data now
       (sd\<lparr>bulletin_board := dict_set (bulletin_entry_id entry) entry (bulletin_board sd)\<rparr>)"

definition get_bulletin_entry :: "SharedData \<Rightarrow> string \<Rightarrow> BulletinEntry option" where
  "get_bulletin_entry sd eid = dict_get (bulletin_board sd) eid"

text \<open>Two bulletin entries for one ballot, as test inputs.\<close>

definition vote_entry_1 :: BulletinEntry where
  "vote_entry_1 =
     \<lparr>bulletin_entry_id = ''e1'', bulletin_ballot_id = ''b1'',
      bulletin_confirmation_codes = [''1010''], bulletin_entry_type = ''vote'',
      bulletin_timestamp = ''t1'', bulletin_signature = ''quantum_sig_e1'',
      bulletin_quantum_proof = ''SEDJO_proof_e1''\<rparr>"

definition vote_entry_2 :: BulletinEntry where
  "vote_entry_2 =
     \<lparr>bulletin_entry_id = ''e2'', bulletin_ballot_id = ''b1'',
      bulletin_confirmation_codes = [''1010''], bulletin_entry_type = ''vote'',
      bulletin_timestamp = ''t2'', bulletin_signature = ''quantum_sig_e2'',
      bulletin_quantum_proof = ''SEDJO_proof_e2''\<rparr>"

text \<open>The board after one vote for ballot \<open>b1\<close>, drawn from the all-zero tape.\<close>

definition board_after_one_vote :: BulletinBoard where
  "board_after_one_vote =
     \<lparr>entries = [\<lparr>entry_id = ''0000000000000000'', ballot_id = ''b1'',
                   confirmation_codes = [''c1''], timestamp = 0,
                   digital_signature =
                     ''52010A5301000000000000000000000000000000000000000000000000000000'',
                   entry_type = ''vote'', quantum_proof = None\<rparr>],
      published_ballots = [(''b1'', ''vote'')], commitments = [], is_sealed = False\<rparr>"

section \<open>quantegrity_app.py: the mixnet tables\<close>

text \<open>
  A row of table R is the dictionary built in \<open>generate_tables\<close>, with the keys
  \<open>code\<close>, \<open>ballot_id\<close>, \<open>candidate\<close>, \<open>q_pointer\<close>, \<open>s_pointer\<close> and \<open>flag\<close>.
\<close>

record RRow =
  code :: string
  row_ballot_id :: string
  candidate :: string
  q_pointer :: "string \<times> nat"
  s_pointer :: "string \<times> nat"
  flag :: bool

record MixnetTables =
  table_p :: "(string \<times> (string \<times> string) list) list"
  table_q :: "(string \<times> string list) list"
  table_r :: "RRow list"
  table_s :: "(string \<times> bool list) list"

record MixnetGenerator =
  generator_candidates :: "string list"
  num_ballots :: nat
  tables :: "MixnetTables option"

definition MixnetGenerator_init :: "string list \<Rightarrow> nat \<Rightarrow> MixnetGenerator" where
  "MixnetGenerator_init cands n =
     \<lparr>generator_candidates = cands, num_ballots = n, tables = None\<rparr>"

definition generate_confirmation_code_app :: "random_source \<Rightarrow> string \<times> random_source" where
  "generate_confirmation_code_app rs = generate_qrng_string 4 rs"

text \<open>\<open>f"ballot_{ballot_id:06d}"\<close>.\<close>

definition ballot_str :: "nat \<Rightarrow> string" where
  "ballot_str n = ''ballot_'' @ zfill 6 (str_nat n)"

text \<open>
  An element of \<open>all_codes\<close> is the triple of code, ballot id and candidate. The inner
  loop of the first phase draws one code for each candidate of a ballot.
\<close>

fun draw_ballot_codes ::
  "string \<Rightarrow> string list \<Rightarrow>
   (string \<times> string) list \<times> (string \<times> string \<times> string) list \<times> random_source \<Rightarrow>
   (string \<times> string) list \<times> (string \<times> string \<times> string) list \<times> random_source" where
  "draw_ballot_codes b [] st = st"
| "draw_ballot_codes b (cand # cands) (row, all_codes, rs) =
     (case generate_confirmation_code_app rs of
        (c, rs') \<Rightarrow>
          draw_ballot_codes b cands (dict_set cand c row, all_codes @ [(c, b, cand)], rs'))"

fun draw_table_p ::
  "string list \<Rightarrow> nat list \<Rightarrow>
   (string \<times> (string \<times> string) list) list \<times> (string \<times> string \<times> string) list \<times> random_source \<Rightarrow>
   (string \<times> (string \<times> string) list) list \<times> (string \<times> string \<times> string) list \<times> random_source" where
  "draw_table_p cands [] st = st"
| "draw_table_p cands (n # ns) (p, all_codes, rs) =
     (case draw_ballot_codes (ballot_str n) cands ([], all_codes, rs) of
        (row, all_codes', rs') \<Rightarrow>
          draw_table_p cands ns (dict_set (ballot_str n) row p, all_codes', rs'))"

text \<open>
  \<open>_quantum_shuffle\<close>: for \<open>i\<close> from \<open>n - 1\<close> down to 1, swap \<open>items[i]\<close> with
  \<open>items[j]\<close>, \<open>j\<close> drawn from eight random bits.
\<close>

fun quantum_shuffle_from :: "nat \<Rightarrow> 'a list \<Rightarrow> random_source \<Rightarrow> 'a list \<times> random_source" where
  "quantum_shuffle_from 0 items rs = (items, rs)"
| "quantum_shuffle_from (Suc k) items rs =
     (case qrng 8 rs of
        (random_bits, rs') \<Rightarrow>
          let i = Suc k;
              j = int_base2 random_bits mod (i + 1)
          in quantum_shuffle_from k (items[i := items ! j, j := items ! i]) rs')"

definition quantum_shuffle :: "'a list \<Rightarrow> random_source \<Rightarrow> 'a list \<times> random_source" where
  "quantum_shuffle items rs = quantum_shuffle_from (length items - 1) items rs"

fun shuffle_table_q ::
  "(string \<times> (string \<times> string) list) list \<Rightarrow> (string \<times> string list) list \<times> random_source \<Rightarrow>
   (string \<times> string list) list \<times> random_source" where
  "shuffle_table_q [] st = st"
| "shuffle_table_q ((b, candidates_codes) # rest) (q, rs) =
     (case quantum_shuffle (dict_values candidates_codes) rs of
        (codes, rs') \<Rightarrow> shuffle_table_q rest (dict_set b codes q, rs'))"

text \<open>\<open>xs.index(x)\<close>: the first position of \<open>x\<close>, ValueError if there is none.\<close>

fun list_index :: "'a list \<Rightarrow> 'a \<Rightarrow> error + nat" where
  "list_index [] x = Inl (ValueError ''is not in list'')"
| "list_index (y # ys) x =
     (if y = x then Inr 0
      else (case list_index ys x of Inl e \<Rightarrow> Inl e | Inr n \<Rightarrow> Inr (Suc n)))"

text \<open>
  The third phase: one row of R for each element of \<open>all_codes\<close>; \<open>done\<close> is
  \<open>all_codes[:i]\<close>.
\<close>

fun build_table_r ::
  "(string \<times> string list) list \<Rightarrow> (string \<times> string \<times> string) list \<Rightarrow>
   (string \<times> string \<times> string) list \<Rightarrow> error + RRow list" where
  "build_table_r q done [] = Inr []"
| "build_table_r q done ((c, b, cand) # rest) =
     (case dict_get q b of
        None \<Rightarrow> Inl KeyError
      | Some codes \<Rightarrow>
          (case list_index codes c of
             Inl e \<Rightarrow> Inl e
           | Inr q_position \<Rightarrow>
               let s_position = length (filter (\<lambda>x. snd (snd x) = cand) done);
                   row = \<lparr>code = c, row_ballot_id = b, candidate = cand,
                          q_pointer = (b, q_position), s_pointer = (cand, s_position),
                          flag = False\<rparr>
               in (case build_table_r q (done @ [(c, b, cand)]) rest of
                     Inl e \<Rightarrow> Inl e
                   | Inr rows \<Rightarrow> Inr (row # rows))))"

fun build_table_s ::
  "(string \<times> string \<times> string) list \<Rightarrow> string list \<Rightarrow> (string \<times> bool list) list \<Rightarrow>
   (string \<times> bool list) list" where
  "build_table_s all_codes [] s = s"
| "build_table_s all_codes (cand # cands) s =
     build_table_s all_codes cands
       (dict_set cand (replicate (length (filter (\<lambda>x. snd (snd x) = cand) all_codes)) False) s)"

definition generate_tables ::
  "MixnetGenerator \<Rightarrow> random_source \<Rightarrow> (error + MixnetTables) \<times> MixnetGenerator \<times> random_source" where
  "generate_tables mg rs =
     (case draw_table_p (generator_candidates mg) [0..<num_ballots mg] ([], [], rs) of
        (p, all_codes, rs1) \<Rightarrow>
          (case shuffle_table_q p ([], rs1) of
             (q, rs2) \<Rightarrow>
               (case build_table_r q [] all_codes of
                  Inl e \<Rightarrow> (Inl e, mg, rs2)
                | Inr r \<Rightarrow>
                    let s = build_table_s all_codes (generator_candidates mg) [];
                        t = \<lparr>table_p = p, table_q = q, table_r = r, table_s = s\<rparr>
                    in (Inr t, mg\<lparr>tables := Some t\<rparr>, rs2))))"

text \<open>
  \<open>flag_vote\<close>: the loop stops at the first row with the code. The row's flag is set
  before table S is indexed, so it stays set when the indexing raises.
\<close>

fun first_index :: "('a \<Rightarrow> bool) \<Rightarrow> 'a list \<Rightarrow> nat option" where
  "first_index P [] = None"
| "first_index P (x # xs) =
     (if P x then Some 0 else (case first_index P xs of None \<Rightarrow> None | Some n \<Rightarrow> Some (Suc n)))"

definition flag_vote :: "string \<Rightarrow> MixnetGenerator \<Rightarrow> (error + bool) \<times> MixnetGenerator" where
  "flag_vote confirmation_code mg =
     (case tables mg of
        None \<Rightarrow> (Inr False, mg)
      | Some t \<Rightarrow>
          (case first_index (\<lambda>entry. code entry = confirmation_code) (table_r t) of
             None \<Rightarrow> (Inr False, mg)
           | Some i \<Rightarrow>
               let entry = table_r t ! i;
                   t1 = t\<lparr>table_r := (table_r t)[i := entry\<lparr>flag := True\<rparr>]\<rparr>;
                   cand = candidate entry;
                   s_position = snd (s_pointer entry)
               in (case dict_get (table_s t1) cand of
                     None \<Rightarrow> (Inl KeyError, mg\<lparr>tables := Some t1\<rparr>)
                   | Some flags \<Rightarrow>
                       if s_position < length flags
                       then (Inr True,
                             mg\<lparr>tables := Some (t1\<lparr>table_s :=
                                     dict_set cand (flags[s_position := True]) (table_s t1)\<rparr>)\<rparr>)
                       else (Inl IndexError, mg\<lparr>tables := Some t1\<rparr>))))"

text \<open>\<open>get_tally\<close>: \<open>sum(flags)\<close> counts the true flags of a candidate.\<close>

definition get_tally :: "MixnetGenerator \<Rightarrow> (string \<times> nat) list" where
  "get_tally mg =
     (case tables mg of
        None \<Rightarrow> []
      | Some t \<Rightarrow> map (\<lambda>(cand, flags). (cand, length (filter (\<lambda>f. f) flags))) (table_s t))"

text \<open>A tape whose first sixteen bits are ones, as a test input.\<close>

definition first16_tape :: "nat \<Rightarrow> bool" where
  "first16_tape i = (i < 16)"

text \<open>
  \<open>get_tally()[cand]\<close>, zero for a candidate without a column; a sequence of
  \<open>flag_vote\<close> calls, whatever each returns; and the property of the tables that every
  row of R points at a slot of table S.
\<close>

definition tally_for :: "MixnetGenerator \<Rightarrow> string \<Rightarrow> nat" where
  "tally_for mg cand = (case dict_get (get_tally mg) cand of None \<Rightarrow> 0 | Some n \<Rightarrow> n)"

definition flag_votes :: "string list \<Rightarrow> MixnetGenerator \<Rightarrow> MixnetGenerator" where
  "flag_votes cs mg = foldl (\<lambda>m c. snd (flag_vote c m)) mg cs"

definition rows_point_into_s :: "MixnetTables \<Rightarrow> bool" where
  "rows_point_into_s t =
     list_all (\<lambda>row. case dict_get (table_s t) (candidate row) of
                        None \<Rightarrow> False
                      | Some flags \<Rightarrow> snd (s_pointer row) < length flags) (table_r t)"

section \<open>shared_state.py: the ballot pool\<close>

text \<open>\<open>generate_confirmation_code\<close> and \<open>generate_ballot_id\<close> of quantum_core.py.\<close>

definition generate_confirmation_code :: "random_source \<Rightarrow> string \<times> random_source" where
  "generate_confirmation_code rs = qrng 16 rs"

definition generate_ballot_id :: "random_source \<Rightarrow> string \<times> random_source" where
  "generate_ballot_id rs = qrng 12 rs"

fun draw_pool_codes ::
  "string list \<Rightarrow> (string \<times> string) list \<times> random_source \<Rightarrow>
   (string \<times> string) list \<times> random_source" where
  "draw_pool_codes [] st = st"
| "draw_pool_codes (cand # cands) (pool_codes, rs) =
     (case generate_confirmation_code rs of
        (c, rs') \<Rightarrow> draw_pool_codes cands (dict_set cand c pool_codes, rs'))"

text \<open>The loop \<open>for i in range(pool_size)\<close>; its body does not use \<open>i\<close>.\<close>

fun create_pool_loop ::
  "string \<Rightarrow> string list \<Rightarrow> nat \<Rightarrow> Ballot list \<times> random_source \<Rightarrow>
   Ballot list \<times> random_source" where
  "create_pool_loop eid cands 0 st = st"
| "create_pool_loop eid cands (Suc n) (ballot_pool, rs) =
     (case generate_ballot_id rs of
        (bid, rs1) \<Rightarrow>
          (case draw_pool_codes cands ([], rs1) of
             (pool_codes, rs2) \<Rightarrow>
               let ballot = \<lparr>ballot_ballot_id = bid, ballot_voter_id = [],
                             ballot_election_id = eid,
                             ballot_confirmation_codes = pool_codes,
                             is_cast = False, is_spoiled = False, is_allocated = False,
                             selected_candidate = [], encrypted_vote = [], cast_time = [],
                             allocation_time = []\<rparr>
               in create_pool_loop eid cands n (ballot_pool @ [ballot], rs2)))"

definition create_ballot_pool ::
  "string \<Rightarrow> string list \<Rightarrow> nat \<Rightarrow> SharedData \<times> random_source \<Rightarrow> SharedData \<times> random_source" where
  "create_ballot_pool eid cands pool_size st =
     (case st of (sd, rs) \<Rightarrow>
        (case create_pool_loop eid cands pool_size ([], rs) of
           (ballot_pool, rs') \<Rightarrow>
             (sd\<lparr>ballot_pools := dict_set eid ballot_pool (ballot_pools sd)\<rparr>, rs')))"

text \<open>
  The tables generated for one ballot and the candidates Alice and Bob from the tape
  \<open>first16_tape\<close>, as a test value.
\<close>

definition one_ballot_tables :: MixnetTables where
  "one_ballot_tables =
     \<lparr>table_p = [(''ballot_000000'', [(''Alice'', ''FFFF''), (''Bob'', ''0000'')])],
      table_q = [(''ballot_000000'', [''0000'', ''FFFF''])],
      table_r = [\<lparr>code = ''FFFF'', row_ballot_id = ''ballot_000000'', candidate = ''Alice'',
                   q_pointer = (''ballot_000000'', 1), s_pointer = (''Alice'', 0),
                   flag = False\<rparr>,
                 \<lparr>code = ''0000'', row_ballot_id = ''ballot_000000'', candidate = ''Bob'',
                   q_pointer = (''ballot_000000'', 0), s_pointer = (''Bob'', 0),
                   flag = False\<rparr>],
      table_s = [(''Alice'', [False]), (''Bob'', [False])]\<rparr>"

section \<open>Scantegrity_simplified.py: ballots and the election system\<close>

text \<open>
  A \<open>Ballot\<close> object is passed to the methods of \<open>ElectionSystem\<close> and changed by them;
  here the methods take the ballot and the system and return both. The lists
  \<open>audited_ballots\<close> and \<open>spoiled_ballots\<close> hold references to ballots, modelled by
  their ballot ids. The status is the string the code stores.
\<close>

record SimpleBallot =
  simple_ballot_id :: string
  simple_questions :: "(string \<times> string list) list"
  simple_codes :: "(string \<times> (string \<times> string) list) list"
  marked_options :: "(string \<times> string) list"
  status :: string

text \<open>A row of a table R: \<open>flag\<close>, \<open>q_pointer\<close> and \<open>s_pointer\<close>.\<close>

record SimpleRow =
  simple_flag :: bool
  simple_q_pointer :: "string \<times> string \<times> nat"
  simple_s_pointer :: "string \<times> string"

record ElectionSystem =
  num_voters :: nat
  system_questions :: "(string \<times> string list) list"
  simple_table_q :: "(string \<times> (string \<times> string list) list) list"
  simple_table_s :: "(string \<times> (string \<times> string set) list) list"
  tables_r :: "SimpleRow list list"
  cast_votes :: "(string \<times> string \<times> string option) list"
  audited_ballots :: "string list"
  spoiled_ballots :: "string list"









definition audit_ballot ::
  "SimpleBallot \<Rightarrow> ElectionSystem \<Rightarrow> (error + unit) \<times> SimpleBallot \<times> ElectionSystem" where
  "audit_ballot b es =
     (if status b = ''Not Cast'' then
        (Inr (), b\<lparr>status := ''Audited''\<rparr>,
         es\<lparr>audited_ballots := audited_ballots es @ [simple_ballot_id b]\<rparr>)
      else (Inl (ValueError ''Ballot has already been cast, audited, or spoiled''), b, es))"

definition reveal_row :: "string \<Rightarrow> SimpleRow \<Rightarrow> SimpleRow" where
  "reveal_row bid entry =
     (if fst (simple_q_pointer entry) = bid then entry\<lparr>simple_flag := True\<rparr> else entry)"

definition spoil_ballot ::
  "SimpleBallot \<Rightarrow> ElectionSystem \<Rightarrow> (error + unit) \<times> SimpleBallot \<times> ElectionSystem" where
  "spoil_ballot b es =
     (if status b = ''Not Cast'' then
        (Inr (), b\<lparr>status := ''Spoiled''\<rparr>,
         es\<lparr>spoiled_ballots := spoiled_ballots es @ [simple_ballot_id b],
            tables_r := map (map (reveal_row (simple_ballot_id b))) (tables_r es)\<rparr>)
      else (Inl (ValueError ''Ballot has already been cast, audited, or spoiled''), b, es))"

definition simple_get_tally :: "ElectionSystem \<Rightarrow> (string \<times> (string \<times> nat) list) list" where
  "simple_get_tally es =
     map (\<lambda>(q, opts). (q, map (\<lambda>(opt, cs). (opt, card cs)) opts)) (simple_table_s es)"








text \<open>A ballot and an election system for one voter and one question, as test inputs.\<close>

definition mayor_ballot :: SimpleBallot where
  "mayor_ballot =
     \<lparr>simple_ballot_id = ''0001'', simple_questions = [(''Mayor'', [''Alice'', ''Bob''])],
      simple_codes = [(''Mayor'', [(''Alice'', ''A1X''), (''Bob'', ''B2Y'')])],
      marked_options = [], status = ''Not Cast''\<rparr>"

definition mayor_election :: ElectionSystem where
  "mayor_election =
     \<lparr>num_voters = 1, system_questions = [(''Mayor'', [''Alice'', ''Bob''])],
      simple_table_q = [(''0001'', [(''Mayor'', [''B2Y'', ''A1X''])])],
      simple_table_s = [(''Mayor'', [(''Alice'', {}), (''Bob'', {})])],
      tables_r = [ [\<lparr>simple_flag = False, simple_q_pointer = (''0001'', ''Mayor'', 0),
                    simple_s_pointer = (''Mayor'', ''Alice'')\<rparr>,
                   \<lparr>simple_flag = False, simple_q_pointer = (''0001'', ''Mayor'', 1),
                    simple_s_pointer = (''Mayor'', ''Bob'')\<rparr>] ],
      cast_votes = [], audited_ballots = [], spoiled_ballots = []\<rparr>"

section \<open>quantegrity_app.py: the ballot\<close>


record BallotChoice =
  candidate_name :: string
  candidate_id :: string
  confirmation_code :: string
  position :: nat






section \<open>shared_state.py: spoiling a ballot and counting the votes\<close>

definition get_voter :: "SharedData \<Rightarrow> string \<Rightarrow> Voter option" where
  "get_voter sd vid = dict_get (voters sd) vid"

definition get_ballot :: "SharedData \<Rightarrow> string \<Rightarrow> Ballot option" where
  "get_ballot sd bid = dict_get (ballots sd) bid"

definition get_election :: "SharedData \<Rightarrow> string \<Rightarrow> Election option" where
  "get_election sd eid = dict_get (elections sd) eid"

definition update_ballot :: "Ballot \<Rightarrow> string \<Rightarrow> SharedData \<Rightarrow> SharedData" where
  "update_ballot ballot now sd =
     save_data now (sd\<lparr>ballots := dict_set (ballot_ballot_id ballot) ballot (ballots sd)\<rparr>)"

definition update_voter :: "Voter \<Rightarrow> string \<Rightarrow> SharedData \<Rightarrow> SharedData" where
  "update_voter voter now sd =
     save_data now (sd\<lparr>voters := dict_set (voter_id voter) voter (voters sd)\<rparr>)"

text \<open>\<open>SharedState.spoil_ballot\<close>: the pair it returns, and the data after the call.\<close>

definition shared_spoil_ballot ::
  "string \<Rightarrow> string \<Rightarrow> string \<Rightarrow> SharedData \<Rightarrow> (bool \<times> (string \<times> string) list) \<times> SharedData" where
  "shared_spoil_ballot vid bid now sd =
     (case get_voter sd vid of
        None \<Rightarrow> ((False, []), sd)
      | Some voter \<Rightarrow>
          (case get_ballot sd bid of
             None \<Rightarrow> ((False, []), sd)
           | Some ballot \<Rightarrow>
               let ballot' = ballot\<lparr>is_spoiled := True, cast_time := now\<rparr>;
                   voter' = voter\<lparr>vote_status := ''spoiled''\<rparr>
               in ((True, ballot_confirmation_codes ballot'),
                   update_voter voter' now (update_ballot ballot' now sd))))"

text \<open>\<open>sorted(entries, key=lambda x: x.timestamp)\<close>: a stable sort on the time stamps.\<close>

definition get_all_bulletin_entries :: "SharedData \<Rightarrow> BulletinEntry list" where
  "get_all_bulletin_entries sd = sort_key bulletin_timestamp (dict_values (bulletin_board sd))"

text \<open>
  The loop of \<open>get_election_results\<close> over the codes of a ballot, left at the first
  code that the entry reveals.
\<close>

fun count_codes ::
  "(string \<times> string) list \<Rightarrow> string list \<Rightarrow> (string \<times> nat) list \<Rightarrow> (string \<times> nat) list" where
  "count_codes [] revealed results = results"
| "count_codes ((cand, c) # rest) revealed results =
     (if c \<in> set revealed
      then (case dict_get results cand of
              Some n \<Rightarrow> dict_set cand (n + 1) results
            | None \<Rightarrow> results)
      else count_codes rest revealed results)"

definition count_entry ::
  "string \<Rightarrow> SharedData \<Rightarrow> (string \<times> nat) list \<Rightarrow> BulletinEntry \<Rightarrow> (string \<times> nat) list" where
  "count_entry eid sd results entry =
     (if bulletin_entry_type entry = ''vote''
      then (case get_ballot sd (bulletin_ballot_id entry) of
              None \<Rightarrow> results
            | Some ballot \<Rightarrow>
                if ballot_election_id ballot = eid
                then count_codes (ballot_confirmation_codes ballot)
                       (bulletin_confirmation_codes entry) results
                else results)
      else results)"

definition get_election_results ::
  "string \<Rightarrow> string \<Rightarrow> SharedData \<Rightarrow> (string \<times> nat) list \<times> SharedData" where
  "get_election_results eid now sd =
     (case get_election sd eid of
        None \<Rightarrow> ([], sd)
      | Some election \<Rightarrow>
          let results0 = foldl (\<lambda>r cand. dict_set cand 0 r) [] (candidates election);
              results = foldl (count_entry eid sd) results0 (get_all_bulletin_entries sd)
          in (results,
              save_data now
                (sd\<lparr>system_stats := (system_stats sd)\<lparr>total_votes := sum_list (map snd results)\<rparr>\<rparr>)))"

text \<open>Every stored ballot is filed under its own ballot id, as the methods store it.\<close>

definition ballots_filed_by_id :: "SharedData \<Rightarrow> bool" where
  "ballots_filed_by_id sd = list_all (\<lambda>(k, ballot). ballot_ballot_id ballot = k) (ballots sd)"

text \<open>
  Stored data with one election, one voter, an allocated ballot and no bulletin entry,
  as a test input.
\<close>

definition one_voter_data :: SharedData where
  "one_voter_data =
     SharedData_init
       \<lparr>elections := [(''election_1'',
           \<lparr>election_id = ''election_1'', election_name = ''Main'',
            candidates = [''Alice'', ''Bob''], is_active = True, creation_time = ''t0'',
            ballot_pool_size = 1\<rparr>)],
        voters := [(''0000000000000001'',
           \<lparr>voter_id = ''0000000000000001'', voter_name = ''V'', national_id = ''N1'',
            quantum_keys = \<lparr>q_k1 = ''1010'', q_k2 = ''0110'', encrypted_q_k1 = ''1100'',
                            aq_k1_alice = [], aq_k1_bob = [], vq_k1_alice = [],
                            vq_k1_bob = []\<rparr>,
            biometric_data = \<lparr>signature = ''0110'', is_enrolled = True,
                              enrollment_time = ''t0''\<rparr>,
            device_info = \<lparr>device_id = [], device_fingerprint = [],
                           device_registration_time = [], verification_otp = [],
                           encrypted_otp = [], is_verified = False\<rparr>,
            is_registered = True, device_status = ''not_requested'',
            auth_status = ''not_authenticated'', vote_status = ''not_voted'',
            vote_receipt = [], registration_time = ''t0'', last_login_time = [],
            auth_otp = [], auth_encrypted_otp = []\<rparr>)],
        ballots := [(''000000000001'',
           \<lparr>ballot_ballot_id = ''000000000001'', ballot_voter_id = ''0000000000000001'',
            ballot_election_id = ''election_1'',
            ballot_confirmation_codes = [(''Alice'', ''1111''), (''Bob'', ''0000'')],
            is_cast = False, is_spoiled = False, is_allocated = True,
            selected_candidate = [], encrypted_vote = [], cast_time = [],
            allocation_time = ''t1''\<rparr>)]\<rparr>"

section \<open>Properties of the XOR helpers\<close>

lemma str_nat_bit:
  fixes m n :: nat
  assumes "m < 2" "n < 2"
  shows "str_nat (m XOR n) = [if m = n then CHR ''0'' else CHR ''1'']"
proof -
  from assms have "m = 0 \<or> m = 1" "n = 0 \<or> n = 1" by auto
  then show ?thesis by (auto simp: str_nat.simps digit_char_def)
qed

lemma int_of_char_bit:
  "c = CHR ''0'' \<or> c = CHR ''1'' \<Longrightarrow> int_of_char c = Inr (if c = CHR ''1'' then 1 else 0)"
  by (auto simp: int_of_char_def)

lemma xor_join_binary:
  "length a = length b \<Longrightarrow> is_binary a \<Longrightarrow> is_binary b \<Longrightarrow>
   xor_join (zip a b) = Inr (map2 xor_bit a b)"
proof (induction a b rule: list_induct2)
  case Nil
  then show ?case by simp
next
  case (Cons x xs y ys)
  then show ?case
    by (auto simp: is_binary_def int_of_char_bit str_nat_bit xor_bit_def)
qed

lemma zfill_binary: "is_binary s \<Longrightarrow> zfill w s = replicate (w - length s) CHR ''0'' @ s"
  by (cases s) (auto simp: zfill_def is_binary_def)

lemma is_binary_append: "is_binary (xs @ ys) \<longleftrightarrow> is_binary xs \<and> is_binary ys"
  by (simp add: is_binary_def)

lemma is_binary_zeros: "is_binary (replicate n CHR ''0'')"
  by (induction n) (simp_all add: is_binary_def)

lemma is_binary_zfill:
  assumes "is_binary s"
  shows "is_binary (zfill w s)"
proof -
  have "zfill w s = replicate (w - length s) CHR ''0'' @ s"
    using assms by (rule zfill_binary)
  then show ?thesis
    using assms by (simp only: is_binary_append is_binary_zeros simp_thms)
qed

lemma length_zfill: "is_binary s \<Longrightarrow> length (zfill w s) = max w (length s)"
  by (simp add: zfill_binary)

lemma binary_xor_binary:
  assumes "is_binary a" "is_binary b"
  shows "binary_xor a b =
    Inr (map2 xor_bit (zfill (max (length a) (length b)) a) (zfill (max (length a) (length b)) b))"
  using assms by (simp add: binary_xor_def Let_def xor_join_binary length_zfill is_binary_zfill)

lemma xor_bit_cases: "xor_bit x y = CHR ''0'' \<or> xor_bit x y = CHR ''1''"
  by (simp add: xor_bit_def)

lemma is_binary_map2: "is_binary (map2 xor_bit a b)"
  unfolding is_binary_def list_all_iff using xor_bit_cases by auto

lemma map2_xor_bit_cancel:
  "length x = length k \<Longrightarrow> is_binary x \<Longrightarrow> is_binary k \<Longrightarrow>
   map2 xor_bit (map2 xor_bit x k) k = x"
  by (induction x k rule: list_induct2) (auto simp: is_binary_def xor_bit_def)

text \<open>
  Claim C10. For all binary strings \<open>x\<close> and \<open>k\<close> of equal length, \<open>xor_encrypt x k\<close>
  returns a ciphertext \<open>c\<close>, and \<open>xor_decrypt c k\<close> returns \<open>x\<close>: encrypting and then
  decrypting with the same key restores the plaintext.
\<close>

theorem xor_round_trip:
  assumes "is_binary x" "is_binary k" "length x = length k"
  shows "\<exists>c. xor_encrypt x k = Inr c \<and> xor_decrypt c k = Inr x"
proof -
  let ?c = "map2 xor_bit x k"
  have enc: "xor_encrypt x k = Inr ?c"
    using assms by (simp add: xor_encrypt_def binary_xor_binary zfill_def)
  have "binary_xor ?c k = Inr (map2 xor_bit ?c k)"
    using binary_xor_binary [OF is_binary_map2 assms(2), of x k] assms(3)
    by (simp add: zfill_def)
  then have "xor_decrypt ?c k = Inr x"
    using assms by (simp add: xor_decrypt_def is_binary_map2 map2_xor_bit_cancel)
  with enc show ?thesis by blast
qed

theorem xor_round_trip_witness:
  "is_binary ''1010'' \<and> is_binary ''0110'' \<and> length ''1010'' = length ''0110'' \<and>
   (\<exists>c. xor_encrypt ''1010'' ''0110'' = Inr c \<and> xor_decrypt c ''0110'' = Inr ''1010'')"
proof -
  have h: "is_binary ''1010''" "is_binary ''0110''" "length ''1010'' = length ''0110''"
    by (simp_all add: is_binary_def)
  show ?thesis using h xor_round_trip [OF h] by blast
qed

lemma nth_concat_replicate:
  "i < m * length key \<Longrightarrow> concat (replicate m key) ! i = key ! (i mod length key)"
proof (induction m arbitrary: i)
  case 0
  then show ?case by simp
next
  case (Suc m)
  show ?case
  proof (cases "i < length key")
    case True
    then show ?thesis by (simp add: nth_append)
  next
    case False
    then have "i - length key < m * length key" using Suc.prems by simp
    then have "concat (replicate m key) ! (i - length key) = key ! ((i - length key) mod length key)"
      by (rule Suc.IH)
    moreover have "(i - length key) mod length key = i mod length key"
      using False by (simp add: le_mod_geq)
    ultimately show ?thesis using False by (simp add: nth_append)
  qed
qed

lemma repeat_covers: "0 < k \<Longrightarrow> n < (n div k + 1) * k" for n k :: nat
  using dividend_less_div_times [of k n] by (simp add: algebra_simps)

lemma xor_encrypt_app_cyclic:
  assumes "key \<noteq> []"
  shows "xor_encrypt_app data key =
         Inr (map (\<lambda>i. xor_chr (data ! i) (key ! (i mod length key))) [0..<length data])"
proof (cases "length key < length data")
  case True
  let ?m = "length data div length key + 1"
  have pos: "0 < length key" using assms by simp
  have cover: "length data < ?m * length key" using pos by (rule repeat_covers)
  have "\<And>i. i < length data \<Longrightarrow>
      take (length data) (concat (replicate ?m key)) ! i = key ! (i mod length key)"
  proof -
    fix i assume i: "i < length data"
    then have "i < ?m * length key" using cover by linarith
    then show "take (length data) (concat (replicate ?m key)) ! i = key ! (i mod length key)"
      using i by (simp add: nth_concat_replicate del: replicate.simps)
  qed
  then show ?thesis using True pos by (simp add: xor_encrypt_app_def Let_def del: replicate.simps)
next
  case False
  then have "\<And>i. i < length data \<Longrightarrow> i mod length key = i" by simp
  then show ?thesis using False by (simp add: xor_encrypt_app_def Let_def)
qed

text \<open>
  Claim C9, as amended. The XOR helpers accept operands of different lengths. For binary
  strings \<open>a\<close> and \<open>b\<close>, \<open>xor_encrypt\<close> and \<open>xor_decrypt\<close> of quantum_core.py return the
  XOR of the operands after the shorter one has been padded with zeros on the left, a
  string as long as the longer operand; they raise ValueError exactly when an operand is
  not a binary string. \<open>xor_encrypt\<close> of quantegrity_app.py, given a non-empty key, XORs
  the character at position \<open>i\<close> of the data with the key character at position
  \<open>i mod len(key)\<close>: a shorter key is repeated, a longer key is cut.
\<close>

theorem xor_pads_or_repeats:
  "(is_binary a \<and> is_binary b \<longrightarrow>
      (\<exists>r. xor_encrypt a b = Inr r \<and> xor_decrypt a b = Inr r \<and>
           r = map2 xor_bit (zfill (max (length a) (length b)) a)
                            (zfill (max (length a) (length b)) b) \<and>
           length r = max (length a) (length b))) \<and>
   (\<not> (is_binary a \<and> is_binary b) \<longrightarrow>
      (\<exists>e. xor_encrypt a b = Inl (ValueError e)) \<and> (\<exists>e. xor_decrypt a b = Inl (ValueError e))) \<and>
   (b \<noteq> [] \<longrightarrow>
      xor_encrypt_app a b =
        Inr (map (\<lambda>i. xor_chr (a ! i) (b ! (i mod length b))) [0..<length a]))"
proof (intro conjI impI)
  assume ab: "is_binary a \<and> is_binary b"
  let ?r = "map2 xor_bit (zfill (max (length a) (length b)) a)
                         (zfill (max (length a) (length b)) b)"
  have bx: "binary_xor a b = Inr ?r"
    using ab by (simp add: binary_xor_binary)
  have e: "xor_encrypt a b = Inr ?r"
    using ab bx by (simp add: xor_encrypt_def)
  have d: "xor_decrypt a b = Inr ?r"
    using ab bx by (simp add: xor_decrypt_def)
  have l: "length ?r = max (length a) (length b)"
    using ab by (simp add: length_zfill)
  from e d l
  show "\<exists>r. xor_encrypt a b = Inr r \<and> xor_decrypt a b = Inr r \<and> r = ?r \<and>
            length r = max (length a) (length b)"
    by blast
next
  assume "\<not> (is_binary a \<and> is_binary b)"
  then show "\<exists>e. xor_encrypt a b = Inl (ValueError e)"
    by (auto simp: xor_encrypt_def)
next
  assume "\<not> (is_binary a \<and> is_binary b)"
  then show "\<exists>e. xor_decrypt a b = Inl (ValueError e)"
    by (auto simp: xor_decrypt_def)
next
  assume "b \<noteq> []"
  then show "xor_encrypt_app a b =
        Inr (map (\<lambda>i. xor_chr (a ! i) (b ! (i mod length b))) [0..<length a])"
    by (rule xor_encrypt_app_cyclic)
qed

theorem xor_pads_or_repeats_witness:
  "is_binary ''101'' \<and> is_binary ''10'' \<and> ''10'' \<noteq> [] \<and>
   (\<exists>r. xor_encrypt ''101'' ''10'' = Inr r \<and> xor_decrypt ''101'' ''10'' = Inr r \<and> length r = 3) \<and>
   xor_encrypt_app ''101'' ''10'' =
     Inr (map (\<lambda>i. xor_chr (''101'' ! i) (''10'' ! (i mod length ''10''))) [0..<length ''101'']) \<and>
   \<not> (is_binary ''12'' \<and> is_binary ''01'') \<and>
   (\<exists>e. xor_encrypt ''12'' ''01'' = Inl (ValueError e)) \<and>
   (\<exists>e. xor_decrypt ''12'' ''01'' = Inl (ValueError e))"
proof -
  have h: "is_binary ''101'' \<and> is_binary ''10''" "''10'' \<noteq> []"
    by (simp_all add: is_binary_def)
  have n: "\<not> (is_binary ''12'' \<and> is_binary ''01'')"
    by (simp add: is_binary_def)
  have l: "max (length ''101'') (length ''10'') = 3" by simp
  from xor_pads_or_repeats [of "''101''" "''10''"] h l
  have 1: "\<exists>r. xor_encrypt ''101'' ''10'' = Inr r \<and> xor_decrypt ''101'' ''10'' = Inr r \<and> length r = 3"
    by metis
  from xor_pads_or_repeats [of "''101''" "''10''"] h
  have 2: "xor_encrypt_app ''101'' ''10'' =
     Inr (map (\<lambda>i. xor_chr (''101'' ! i) (''10'' ! (i mod length ''10''))) [0..<length ''101''])"
    by blast
  from xor_pads_or_repeats [of "''12''" "''01''"] n
  have 3: "(\<exists>e. xor_encrypt ''12'' ''01'' = Inl (ValueError e)) \<and>
           (\<exists>e. xor_decrypt ''12'' ''01'' = Inl (ValueError e))"
    by blast
  from h n 1 2 3 show ?thesis by blast
qed

text \<open>
  The claim as stated fails: binary operands of lengths 1 and 2 are not rejected, in
  either module.
\<close>

theorem xor_unequal_length_counterexample:
  "length ''1'' \<noteq> length ''10'' \<and> is_binary ''1'' \<and> is_binary ''10'' \<and>
   binary_xor ''1'' ''10'' = Inr ''11'' \<and>
   xor_encrypt ''1'' ''10'' = Inr ''11'' \<and> xor_decrypt ''1'' ''10'' = Inr ''11'' \<and>
   xor_encrypt_app ''1'' ''10'' = Inr [xor_chr CHR ''1'' CHR ''1'']"
  by (simp add: xor_encrypt_def xor_decrypt_def is_binary_def binary_xor_def zfill_def
      int_of_char_def str_nat.simps digit_char_def xor_encrypt_app_def)

section \<open>Key derivation\<close>

text \<open>
  Claim C8, as amended. When the key agreement is run on two identical inputs during
  authentication or voting-key derivation, the code compares the two returned shares
  and, when they differ, overwrites the second share with the first and carries on:
  for every outcome of the key agreement, \<open>perform_voting_crypto\<close> returns the first
  share twice, and \<open>perform_authentication_crypto\<close> returns the decrypted key with the
  first share twice. No error is raised for a mismatch; the only exception of
  \<open>perform_authentication_crypto\<close> is the ValueError of \<open>xor_decrypt\<close>.
\<close>

theorem key_mismatch_is_repaired:
  "perform_voting_crypto sedjo aq_k1 = (fst (sedjo aq_k1 aq_k1), fst (sedjo aq_k1 aq_k1)) \<and>
   perform_authentication_crypto sedjo enc biometric =
     (case xor_decrypt enc biometric of
        Inl e \<Rightarrow> Inl e
      | Inr k \<Rightarrow> Inr (k, fst (sedjo k k), fst (sedjo k k)))"
  by (auto simp: perform_voting_crypto_def perform_authentication_crypto_def
      sedjo_with_logging_def decrypt_q_k1_with_biometric_def Let_def
      split: prod.splits sum.splits)

theorem key_mismatch_is_repaired_witness:
  "perform_voting_crypto mismatching_sedjo ''1100'' = (''0000'', ''0000'') \<and>
   xor_decrypt ''1010'' ''0110'' = Inr ''1100'' \<and>
   perform_authentication_crypto mismatching_sedjo ''1010'' ''0110'' =
     Inr (''1100'', ''0000'', ''0000'')"
proof -
  have d: "xor_decrypt ''1010'' ''0110'' = Inr ''1100''"
    by (simp add: xor_decrypt_def is_binary_def
      binary_xor_def zfill_def int_of_char_def str_nat.simps digit_char_def)
  show ?thesis
    using key_mismatch_is_repaired [of mismatching_sedjo "''1100''" "''1010''" "''0110''"] d
    by (simp add: mismatching_sedjo_def)
qed

text \<open>
  The claim as stated fails: with shares \<open>0000\<close> and \<open>1111\<close> both functions return
  normally, the second share replaced by the first.
\<close>

theorem key_mismatch_counterexample:
  "fst (mismatching_sedjo ''1100'' ''1100'') \<noteq> snd (mismatching_sedjo ''1100'' ''1100'') \<and>
   perform_voting_crypto mismatching_sedjo ''1100'' = (''0000'', ''0000'') \<and>
   perform_authentication_crypto mismatching_sedjo ''1010'' ''0110'' =
     Inr (''1100'', ''0000'', ''0000'')"
  by (simp add: mismatching_sedjo_def perform_voting_crypto_def perform_authentication_crypto_def
      sedjo_with_logging_def decrypt_q_k1_with_biometric_def xor_decrypt_def is_binary_def
      binary_xor_def zfill_def int_of_char_def str_nat.simps digit_char_def)

section \<open>The bulletin board\<close>

lemma length_hex_chunks: "length (hex_chunks s) = (length s + 3) div 4"
proof (induction s rule: hex_chunks.induct)
  case 1
  then show ?case by simp
next
  case (2 c cs)
  have "length (hex_chunks (c # cs)) = Suc (length (hex_chunks (drop 3 cs)))"
    by (simp add: Let_def)
  also have "\<dots> = Suc ((length cs - 3 + 3) div 4)"
    using 2 by simp
  also have "\<dots> = (length (c # cs) + 3) div 4"
    by (cases "3 \<le> length cs") auto
  finally show ?case .
qed

lemma length_generate_qrng_string: "length (fst (generate_qrng_string n rs)) = n"
  by (simp add: generate_qrng_string_def qrng_def length_hex_chunks)

lemma generate_signature_returns:
  "\<exists>signature rs'. generate_signature data rs = (Inr signature, rs')"
proof -
  obtain sig_key rs' where k: "generate_qrng_string 32 rs = (sig_key, rs')"
    by (cases "generate_qrng_string 32 rs")
  have "length sig_key = 32"
    using length_generate_qrng_string [of 32 rs] k by simp
  then have "sig_key \<noteq> []" by auto
  then have "\<exists>r. xor_encrypt_app (ljust 32 CHR ''0'' (take 32 data)) sig_key = Inr r"
    using xor_encrypt_app_cyclic by blast
  then show ?thesis
    using k by (auto simp: generate_signature_def Let_def)
qed

lemma keys_dict_set: "fst ` set (dict_set k v d) = insert k (fst ` set d)"
  by (induction d) auto

lemma dict_set_new: "k \<notin> set (map fst d) \<Longrightarrow> dict_set k v d = d @ [(k, v)]"
  by (induction d) auto

lemma dict_contains_iff: "dict_contains k d \<longleftrightarrow> k \<in> set (map fst d)"
  by (simp add: dict_contains_def map_of_eq_None_iff)

lemma post_vote_result:
  assumes "post_vote bid codes proof now (bb, rs) = Inr (eid, bb', rs')"
  shows "\<not> is_sealed bb \<and> \<not> dict_contains bid (published_ballots bb) \<and>
         (\<exists>signature. entries bb' = entries bb @
             [\<lparr>entry_id = eid, ballot_id = bid, confirmation_codes = codes, timestamp = now,
               digital_signature = signature, entry_type = ''vote'', quantum_proof = proof\<rparr>]) \<and>
         published_ballots bb' = dict_set bid ''vote'' (published_ballots bb) \<and>
         is_sealed bb' = is_sealed bb"
  using assms
  by (auto simp: post_vote_def Let_def split: if_splits prod.splits sum.splits)

lemma post_audit_result:
  assumes "post_audit bid all_codes now (bb, rs) = Inr (eid, bb', rs')"
  shows "\<not> dict_contains bid (published_ballots bb) \<and>
         (\<exists>signature. entries bb' = entries bb @
             [\<lparr>entry_id = eid, ballot_id = bid, confirmation_codes = dict_values all_codes,
               timestamp = now, digital_signature = signature, entry_type = ''audit'',
               quantum_proof = None\<rparr>]) \<and>
         published_ballots bb' = dict_set bid ''audit'' (published_ballots bb) \<and>
         is_sealed bb' = is_sealed bb"
  using assms
  by (auto simp: post_audit_def Let_def split: if_splits prod.splits sum.splits)

lemma post_audit_succeeds:
  assumes "\<not> dict_contains bid (published_ballots bb)"
  shows "\<exists>eid bb' rs'. post_audit bid all_codes now (bb, rs) = Inr (eid, bb', rs')"
proof -
  obtain eid rs1 where e: "generate_entry_id rs = (eid, rs1)"
    by (cases "generate_entry_id rs")
  obtain signature rs2 where
    s: "board_generate_signature bid (dict_values all_codes) rs1 = (Inr signature, rs2)"
    using generate_signature_returns unfolding board_generate_signature_def by blast
  show ?thesis
    using assms e s by (simp add: post_audit_def Let_def)
qed

lemma post_vote_succeeds:
  assumes "\<not> is_sealed bb" "\<not> dict_contains bid (published_ballots bb)"
  shows "\<exists>eid bb' rs'. post_vote bid codes proof now (bb, rs) = Inr (eid, bb', rs')"
proof -
  obtain eid rs1 where e: "generate_entry_id rs = (eid, rs1)"
    by (cases "generate_entry_id rs")
  obtain signature rs2 where
    s: "board_generate_signature bid codes rs1 = (Inr signature, rs2)"
    using generate_signature_returns unfolding board_generate_signature_def by blast
  show ?thesis
    using assms e s by (simp add: post_vote_def Let_def)
qed

lemma post_vote_keeps_invariant:
  assumes "post_vote bid codes proof now (bb, rs) = Inr (eid, bb', rs')"
    and "distinct (map ballot_id (entries bb))"
    and "set (map ballot_id (entries bb)) = set (map fst (published_ballots bb))"
  shows "distinct (map ballot_id (entries bb')) \<and>
         set (map ballot_id (entries bb')) = set (map fst (published_ballots bb'))"
proof -
  from post_vote_result [OF assms(1)] obtain signature where
    new: "\<not> dict_contains bid (published_ballots bb)"
    and ent: "entries bb' = entries bb @
             [\<lparr>entry_id = eid, ballot_id = bid, confirmation_codes = codes, timestamp = now,
               digital_signature = signature, entry_type = ''vote'', quantum_proof = proof\<rparr>]"
    and pub: "published_ballots bb' = dict_set bid ''vote'' (published_ballots bb)"
    by blast
  from new assms(3) have "bid \<notin> set (map ballot_id (entries bb))"
    by (simp add: dict_contains_iff)
  then show ?thesis
    using assms(2,3) ent pub by (simp add: keys_dict_set)
qed

lemma post_audit_keeps_invariant:
  assumes "post_audit bid all_codes now (bb, rs) = Inr (eid, bb', rs')"
    and "distinct (map ballot_id (entries bb))"
    and "set (map ballot_id (entries bb)) = set (map fst (published_ballots bb))"
  shows "distinct (map ballot_id (entries bb')) \<and>
         set (map ballot_id (entries bb')) = set (map fst (published_ballots bb'))"
proof -
  from post_audit_result [OF assms(1)] obtain signature where
    new: "\<not> dict_contains bid (published_ballots bb)"
    and ent: "entries bb' = entries bb @
             [\<lparr>entry_id = eid, ballot_id = bid, confirmation_codes = dict_values all_codes,
               timestamp = now, digital_signature = signature, entry_type = ''audit'',
               quantum_proof = None\<rparr>]"
    and pub: "published_ballots bb' = dict_set bid ''audit'' (published_ballots bb)"
    by blast
  from new assms(3) have "bid \<notin> set (map ballot_id (entries bb))"
    by (simp add: dict_contains_iff)
  then show ?thesis
    using assms(2,3) ent pub by (simp add: keys_dict_set)
qed

lemma board_step_keeps_invariant:
  assumes "distinct (map ballot_id (entries (fst st)))"
    and "set (map ballot_id (entries (fst st))) = set (map fst (published_ballots (fst st)))"
  shows "distinct (map ballot_id (entries (fst (board_step bop st)))) \<and>
         set (map ballot_id (entries (fst (board_step bop st)))) =
         set (map fst (published_ballots (fst (board_step bop st))))"
proof (cases bop)
  case (PostVote bid codes qp now)
  obtain bb rs where st: "st = (bb, rs)" by (cases st)
  show ?thesis
  proof (cases "post_vote bid codes qp now (bb, rs)")
    case (Inl e)
    then show ?thesis using assms PostVote st by simp
  next
    case (Inr r)
    obtain eid bb' rs' where r: "r = (eid, bb', rs')" by (cases r)
    from post_vote_keeps_invariant [of bid codes qp now bb rs eid bb' rs'] Inr r assms st
    show ?thesis using PostVote st Inr r by simp
  qed
next
  case (PostAudit bid all_codes now)
  obtain bb rs where st: "st = (bb, rs)" by (cases st)
  show ?thesis
  proof (cases "post_audit bid all_codes now (bb, rs)")
    case (Inl e)
    then show ?thesis using assms PostAudit st by simp
  next
    case (Inr r)
    obtain eid bb' rs' where r: "r = (eid, bb', rs')" by (cases r)
    from post_audit_keeps_invariant [of bid all_codes now bb rs eid bb' rs'] Inr r assms st
    show ?thesis using PostAudit st Inr r by simp
  qed
next
  case SealBoard
  then show ?thesis using assms by (simp add: seal_board_def)
qed

lemma board_run_keeps_invariant:
  assumes "distinct (map ballot_id (entries (fst st)))"
    and "set (map ballot_id (entries (fst st))) = set (map fst (published_ballots (fst st)))"
  shows "distinct (map ballot_id (entries (fst (board_run ops st)))) \<and>
         set (map ballot_id (entries (fst (board_run ops st)))) =
         set (map fst (published_ballots (fst (board_run ops st))))"
  using assms
proof (induction ops arbitrary: st)
  case Nil
  then show ?case by (simp add: board_run_def)
next
  case (Cons bop ops)
  have "board_run (bop # ops) st = board_run ops (board_step bop st)"
    by (simp add: board_run_def)
  moreover from board_step_keeps_invariant [OF Cons.prems, of bop]
  have "distinct (map ballot_id (entries (fst (board_step bop st))))"
    and "set (map ballot_id (entries (fst (board_step bop st)))) =
         set (map fst (published_ballots (fst (board_step bop st))))"
    by simp_all
  ultimately show ?case using Cons.IH by simp
qed

lemma dict_get_set: "dict_get (dict_set k v d) k = Some v"
  by (induction d) (auto simp: dict_get_def)

text \<open>
  Claim C2, as amended. The \<open>BulletinBoard\<close> of quantegrity_app.py holds at most one
  entry per ballot id: after any sequence of \<open>post_vote\<close>, \<open>post_audit\<close> and
  \<open>seal_board\<close> calls on a new board, no two entries share a ballot id, and a post of
  either kind for a ballot id that has an entry raises and adds nothing; the exception
  is the duplicate-publication error, except that \<open>post_vote\<close> on a sealed board raises
  the sealed error first. \<open>SharedState.add_bulletin_entry\<close> of shared_state.py makes no
  such check: it stores every entry under its entry id, where it can be read back.
\<close>

theorem board_one_entry_per_ballot:
  assumes "board_run ops (BulletinBoard_init, rs) = (bb, rs')"
  shows "distinct (map ballot_id (entries bb)) \<and>
         (\<forall>bid \<in> set (map ballot_id (entries bb)).
            post_vote bid codes proof now (bb, rs') =
              Inl (Exception (if is_sealed bb then ''Bulletin board is sealed''
                              else ''Ballot '' @ bid @ '' already published'')) \<and>
            post_audit bid all_codes now (bb, rs') =
              Inl (Exception (''Ballot '' @ bid @ '' already published''))) \<and>
         get_bulletin_entry (add_bulletin_entry entry t sd) (bulletin_entry_id entry) = Some entry"
proof -
  have "distinct (map ballot_id (entries (fst (BulletinBoard_init, rs))))"
    and "set (map ballot_id (entries (fst (BulletinBoard_init, rs)))) =
         set (map fst (published_ballots (fst (BulletinBoard_init, rs))))"
    by (simp_all add: BulletinBoard_init_def)
  from board_run_keeps_invariant [OF this, of ops] assms
  have d: "distinct (map ballot_id (entries bb))"
    and p: "set (map ballot_id (entries bb)) = set (map fst (published_ballots bb))"
    by simp_all
  have "\<forall>bid \<in> set (map ballot_id (entries bb)). dict_contains bid (published_ballots bb)"
    using p by (simp add: dict_contains_iff)
  then have "\<forall>bid \<in> set (map ballot_id (entries bb)).
            post_vote bid codes proof now (bb, rs') =
              Inl (Exception (if is_sealed bb then ''Bulletin board is sealed''
                              else ''Ballot '' @ bid @ '' already published'')) \<and>
            post_audit bid all_codes now (bb, rs') =
              Inl (Exception (''Ballot '' @ bid @ '' already published''))"
    by (simp add: post_vote_def post_audit_def)
  moreover have "get_bulletin_entry (add_bulletin_entry entry t sd) (bulletin_entry_id entry) = Some entry"
    by (simp add: get_bulletin_entry_def add_bulletin_entry_def save_data_def dict_get_set)
  ultimately show ?thesis using d by blast
qed

lemma of_char_xor_chr: "(of_char (xor_chr d k) :: nat) = (of_char d XOR of_char k) mod 256"
  by (simp add: xor_chr_def)

lemmas qrng_eval = generate_qrng_string_def qrng_def upt_rec int_base2_def hex_digit_def
  digit_char_def

lemmas signature_eval = generate_signature_def ljust_def xor_encrypt_app_def upt_rec
  of_char_xor_chr hex_02X_def hex_digit_def digit_char_def

lemma zero_id: "generate_entry_id (zero_tape, 0) = (''0000000000000000'', (zero_tape, 64))"
  by (simp add: generate_entry_id_def zero_tape_def qrng_eval)

lemma zero_key:
  "generate_qrng_string 32 (zero_tape, 64) =
   (''00000000000000000000000000000000'', (zero_tape, 192))"
  by (simp add: zero_tape_def qrng_eval)

lemma zero_signature:
  "generate_signature ''b1:c1'' (zero_tape, 64) =
   (Inr ''52010A5301000000000000000000000000000000000000000000000000000000'', (zero_tape, 192))"
  by (simp add: zero_key signature_eval)

lemma one_vote_run:
  "board_run [PostVote ''b1'' [''c1''] None 0] (BulletinBoard_init, (zero_tape, 0)) =
   (board_after_one_vote, (zero_tape, 192))"
  by (simp add: board_run_def post_vote_def BulletinBoard_init_def dict_contains_def zero_id
      board_generate_signature_def zero_signature board_after_one_vote_def)

theorem board_one_entry_per_ballot_witness:
  "board_run [PostVote ''b1'' [''c1''] None 0] (BulletinBoard_init, (zero_tape, 0)) =
     (board_after_one_vote, (zero_tape, 192)) \<and>
   ''b1'' \<in> set (map ballot_id (entries board_after_one_vote)) \<and>
   distinct (map ballot_id (entries board_after_one_vote)) \<and>
   post_vote ''b1'' [''c2''] None 1 (board_after_one_vote, (zero_tape, 192)) =
     Inl (Exception ''Ballot b1 already published'') \<and>
   post_audit ''b1'' [(''Alice'', ''c1''), (''Bob'', ''c2'')] 1 (board_after_one_vote, (zero_tape, 192)) =
     Inl (Exception ''Ballot b1 already published'') \<and>
   get_bulletin_entry (add_bulletin_entry vote_entry_1 ''t1'' SharedData_init)
     (bulletin_entry_id vote_entry_1) = Some vote_entry_1"
proof -
  have m: "''b1'' \<in> set (map ballot_id (entries board_after_one_vote))"
    and s: "\<not> is_sealed board_after_one_vote"
    by (simp_all add: board_after_one_vote_def)
  note t = board_one_entry_per_ballot [OF one_vote_run, of "[''c2'']" None 1
      "[(''Alice'', ''c1''), (''Bob'', ''c2'')]" vote_entry_1 "''t1''" SharedData_init]
  from t have d: "distinct (map ballot_id (entries board_after_one_vote))"
    by (rule conjunct1)
  from t have b: "\<forall>bid \<in> set (map ballot_id (entries board_after_one_vote)).
            post_vote bid [''c2''] None 1 (board_after_one_vote, (zero_tape, 192)) =
              Inl (Exception (if is_sealed board_after_one_vote then ''Bulletin board is sealed''
                              else ''Ballot '' @ bid @ '' already published'')) \<and>
            post_audit bid [(''Alice'', ''c1''), (''Bob'', ''c2'')] 1
              (board_after_one_vote, (zero_tape, 192)) =
              Inl (Exception (''Ballot '' @ bid @ '' already published''))"
    by (rule conjunct1 [OF conjunct2])
  from t have g: "get_bulletin_entry (add_bulletin_entry vote_entry_1 ''t1'' SharedData_init)
     (bulletin_entry_id vote_entry_1) = Some vote_entry_1"
    by (rule conjunct2 [OF conjunct2])
  from bspec [OF b m] s
  have p: "post_vote ''b1'' [''c2''] None 1 (board_after_one_vote, (zero_tape, 192)) =
     Inl (Exception ''Ballot b1 already published'') \<and>
   post_audit ''b1'' [(''Alice'', ''c1''), (''Bob'', ''c2'')] 1 (board_after_one_vote, (zero_tape, 192)) =
     Inl (Exception ''Ballot b1 already published'')"
    by simp
  from one_vote_run m d p g show ?thesis by blast
qed

text \<open>
  The claim as stated fails for \<open>SharedState\<close>: two entries with different entry ids
  and the same ballot id are both stored.
\<close>

theorem shared_board_duplicate_counterexample:
  "bulletin_entry_id vote_entry_1 \<noteq> bulletin_entry_id vote_entry_2 \<and>
   map (bulletin_ballot_id \<circ> snd)
     (bulletin_board (add_bulletin_entry vote_entry_2 ''t2''
                        (add_bulletin_entry vote_entry_1 ''t1'' SharedData_init))) =
   [''b1'', ''b1'']"
  by (simp add: add_bulletin_entry_def save_data_def SharedData_init_def vote_entry_1_def
      vote_entry_2_def)

lemma step_id: "generate_entry_id (step_tape, 0) = (''FFFFFFFFFFFFFFFF'', (step_tape, 64))"
  by (simp add: generate_entry_id_def step_tape_def qrng_eval)

lemma step_key_1:
  "generate_qrng_string 32 (step_tape, 64) =
   (''FFFFFFFFFFFFFFFFFFFFFFFFFFFFFFFF'', (step_tape, 192))"
  by (simp add: step_tape_def qrng_eval)

lemma step_key_2:
  "generate_qrng_string 32 (step_tape, 192) =
   (''00000000000000000000000000000000'', (step_tape, 320))"
  by (simp add: step_tape_def qrng_eval)

lemma step_signature_1:
  "generate_signature ''ballot_000000:A1B2'' (step_tape, 64) =
   (Inr ''24272A2A2932197676767676767C077704747676767676767676767676767676'', (step_tape, 192))"
  by (simp add: step_key_1 signature_eval)

lemma step_signature_2:
  "generate_signature ''ballot_000000:A1B2'' (step_tape, 192) =
   (Inr ''52515C5C5F446F0000000000000A710172020000000000000000000000000000'', (step_tape, 320))"
  by (simp add: step_key_2 signature_eval)

text \<open>
  Claim C7 says that \<open>verify_entry\<close> returns true for every entry created by a
  successful post and not modified afterwards. The code does not: \<open>generate_signature\<close>
  draws a new random key at every call, so the signature recomputed by \<open>verify_entry\<close>
  differs from the stored one whenever the two keys differ. Here a vote is posted on a
  new board, the stored entry is untouched, and \<open>verify_entry\<close> returns false.
\<close>

theorem untampered_entry_fails_verification:
  "\<exists>eid bb rs.
     post_vote ''ballot_000000'' [''A1B2''] None 0 (BulletinBoard_init, (step_tape, 0)) =
       Inr (eid, bb, rs) \<and>
     (\<exists>entry. get_entry bb eid = Some entry \<and> ballot_id entry = ''ballot_000000'' \<and>
              confirmation_codes entry = [''A1B2'']) \<and>
     fst (verify_entry eid (bb, rs)) = Inr False"
  by (simp add: post_vote_def BulletinBoard_init_def dict_contains_def step_id
      board_generate_signature_def step_signature_1 step_signature_2 verify_entry_def
      get_entry_def)

text \<open>
  Claim C5 says that after \<open>seal_board\<close> every post, of any entry type, fails and adds
  no entry. The code does not: on a sealed empty board \<open>post_vote\<close> raises the sealed
  error, but \<open>post_audit\<close> for a ballot never published returns an entry id and appends
  an audit entry.
\<close>

theorem sealed_board_accepts_audit:
  "is_sealed (seal_board BulletinBoard_init) \<and>
   post_vote ''ballot_000001'' [''A1B2''] None 0 (seal_board BulletinBoard_init, (zero_tape, 0)) =
     Inl (Exception ''Bulletin board is sealed'') \<and>
   (\<exists>eid bb' rs'.
      post_audit ''ballot_000001'' [(''Alice'', ''A1B2'')] 0
        (seal_board BulletinBoard_init, (zero_tape, 0)) = Inr (eid, bb', rs') \<and>
      is_sealed bb' \<and>
      length (entries bb') = length (entries (seal_board BulletinBoard_init)) + 1 \<and>
      map ballot_id (entries bb') = [''ballot_000001''] \<and>
      map entry_type (entries bb') = [''audit''])"
proof -
  let ?bb = "seal_board BulletinBoard_init"
  have sealed: "is_sealed ?bb" and empty: "entries ?bb = []"
    and new: "\<not> dict_contains ''ballot_000001'' (published_ballots ?bb)"
    by (simp_all add: seal_board_def BulletinBoard_init_def dict_contains_def)
  have pv: "post_vote ''ballot_000001'' [''A1B2''] None 0 (?bb, (zero_tape, 0)) =
     Inl (Exception ''Bulletin board is sealed'')"
    using sealed by (simp add: post_vote_def)
  from post_audit_succeeds [OF new] obtain eid bb' rs' where
    pa: "post_audit ''ballot_000001'' [(''Alice'', ''A1B2'')] 0 (?bb, (zero_tape, 0)) =
         Inr (eid, bb', rs')"
    by blast
  from post_audit_result [OF pa] sealed empty
  have r: "is_sealed bb'" "length (entries bb') = length (entries ?bb) + 1"
        "map ballot_id (entries bb') = [''ballot_000001'']"
        "map entry_type (entries bb') = [''audit'']"
    by auto
  have "\<exists>eid bb' rs'.
      post_audit ''ballot_000001'' [(''Alice'', ''A1B2'')] 0 (?bb, (zero_tape, 0)) =
        Inr (eid, bb', rs') \<and>
      is_sealed bb' \<and>
      length (entries bb') = length (entries ?bb) + 1 \<and>
      map ballot_id (entries bb') = [''ballot_000001''] \<and>
      map entry_type (entries bb') = [''audit'']"
  proof (intro exI conjI)
    show "post_audit ''ballot_000001'' [(''Alice'', ''A1B2'')] 0 (?bb, (zero_tape, 0)) =
        Inr (eid, bb', rs')" by (rule pa)
  qed (rule r)+
  with sealed pv show ?thesis by (intro conjI)
qed

section \<open>The mixnet tables\<close>

lemma first_index_Some:
  "first_index P xs = Some i \<Longrightarrow> i < length xs \<and> P (xs ! i)"
proof (induction xs arbitrary: i)
  case Nil
  then show ?case by simp
next
  case (Cons x xs)
  then show ?case
    by (cases "P x") (auto split: option.splits)
qed

lemma first_index_None: "first_index P xs = None \<longleftrightarrow> (\<forall>x \<in> set xs. \<not> P x)"
  by (induction xs) (auto split: option.splits)

lemma first_index_update:
  "first_index P xs = Some i \<Longrightarrow> P y \<Longrightarrow> first_index P (xs[i := y]) = Some i"
proof (induction xs arbitrary: i)
  case Nil
  then show ?case by simp
next
  case (Cons x xs)
  show ?case
  proof (cases "P x")
    case True
    with Cons.prems show ?thesis by simp
  next
    case False
    with Cons.prems obtain n where n: "first_index P xs = Some n" "i = Suc n"
      by (auto split: option.splits)
    with Cons.IH [OF n(1) Cons.prems(2)] False show ?thesis by simp
  qed
qed

lemma dict_get_set_eq: "dict_get (dict_set k v d) k' = (if k' = k then Some v else dict_get d k')"
  by (induction d) (auto simp: dict_get_def)

lemma dict_set_idem: "dict_set k v (dict_set k v d) = dict_set k v d"
  by (induction d) auto

lemma flag_vote_True:
  assumes "flag_vote c mg = (Inr True, mg1)"
  shows "\<exists>t i flags.
           tables mg = Some t \<and>
           first_index (\<lambda>entry. code entry = c) (table_r t) = Some i \<and>
           dict_get (table_s t) (candidate (table_r t ! i)) = Some flags \<and>
           snd (s_pointer (table_r t ! i)) < length flags \<and>
           mg1 = mg\<lparr>tables := Some (t\<lparr>table_r := (table_r t)[i := (table_r t ! i)\<lparr>flag := True\<rparr>],
                                     table_s := dict_set (candidate (table_r t ! i))
                                        (flags[snd (s_pointer (table_r t ! i)) := True]) (table_s t)\<rparr>)\<rparr>"
  using assms
  by (auto simp: flag_vote_def Let_def split: option.splits if_splits)

lemma flag_vote_twice:
  assumes "flag_vote c mg = (Inr True, mg1)"
  shows "flag_vote c mg1 = (Inr True, mg1)"
proof -
  from flag_vote_True [OF assms] obtain t i flags where
    t: "tables mg = Some t"
    and i: "first_index (\<lambda>entry. code entry = c) (table_r t) = Some i"
    and f: "dict_get (table_s t) (candidate (table_r t ! i)) = Some flags"
    and s: "snd (s_pointer (table_r t ! i)) < length flags"
    and mg1: "mg1 = mg\<lparr>tables := Some (t\<lparr>table_r := (table_r t)[i := (table_r t ! i)\<lparr>flag := True\<rparr>],
                                     table_s := dict_set (candidate (table_r t ! i))
                                        (flags[snd (s_pointer (table_r t ! i)) := True]) (table_s t)\<rparr>)\<rparr>"
    by blast
  let ?e = "table_r t ! i"
  let ?r = "(table_r t)[i := ?e\<lparr>flag := True\<rparr>]"
  let ?fl = "flags[snd (s_pointer ?e) := True]"
  from first_index_Some [OF i] have il: "i < length (table_r t)" and ic: "code ?e = c"
    by simp_all
  have i': "first_index (\<lambda>entry. code entry = c) ?r = Some i"
    using first_index_update [OF i, of "?e\<lparr>flag := True\<rparr>"] ic by simp
  have e': "?r ! i = ?e\<lparr>flag := True\<rparr>" using il by simp
  have r': "?r[i := (?e\<lparr>flag := True\<rparr>)\<lparr>flag := True\<rparr>] = ?r" by simp
  have g': "dict_get (dict_set (candidate ?e) ?fl (table_s t)) (candidate ?e) = Some ?fl"
    by (simp add: dict_get_set_eq)
  have fl': "?fl[snd (s_pointer ?e) := True] = ?fl" by simp
  show ?thesis
    unfolding mg1
    using i' s by (simp add: flag_vote_def Let_def e' g' dict_set_idem)
qed

lemma count_true_update:
  "length (filter (\<lambda>f. f) (xs[i := True])) \<le> length (filter (\<lambda>f. f) xs) + 1 \<and>
   length (filter (\<lambda>f. f) xs) \<le> length (filter (\<lambda>f. f) (xs[i := True]))"
proof (induction xs arbitrary: i)
  case Nil
  then show ?case by simp
next
  case (Cons x xs)
  show ?case
  proof (cases i)
    case 0
    then show ?thesis by simp
  next
    case (Suc n)
    with Cons.IH [of n] show ?thesis by simp
  qed
qed

lemma tally_for_tables:
  "tally_for mg cand =
     (case tables mg of
        None \<Rightarrow> 0
      | Some t \<Rightarrow> (case dict_get (table_s t) cand of
                     None \<Rightarrow> 0
                   | Some flags \<Rightarrow> length (filter (\<lambda>f. f) flags)))"
proof (cases "tables mg")
  case None
  then show ?thesis by (simp add: tally_for_def get_tally_def dict_get_def)
next
  case (Some t)
  have "map_of (map (\<lambda>(cand, flags). (cand, length (filter (\<lambda>f. f) flags))) (table_s t)) cand =
        map_option (\<lambda>flags. length (filter (\<lambda>f. f) flags)) (map_of (table_s t) cand)"
    by (simp add: map_of_map)
  then show ?thesis
    using Some by (simp add: tally_for_def get_tally_def dict_get_def split: option.splits)
qed

lemma flag_vote_tally:
  assumes "flag_vote c mg = (Inr True, mg1)"
  shows "tally_for mg cand \<le> tally_for mg1 cand \<and> tally_for mg1 cand \<le> tally_for mg cand + 1"
proof -
  from flag_vote_True [OF assms] obtain t i flags where
    t: "tables mg = Some t"
    and f: "dict_get (table_s t) (candidate (table_r t ! i)) = Some flags"
    and mg1: "mg1 = mg\<lparr>tables := Some (t\<lparr>table_r := (table_r t)[i := (table_r t ! i)\<lparr>flag := True\<rparr>],
                                     table_s := dict_set (candidate (table_r t ! i))
                                        (flags[snd (s_pointer (table_r t ! i)) := True]) (table_s t)\<rparr>)\<rparr>"
    by blast
  show ?thesis
  proof (cases "cand = candidate (table_r t ! i)")
    case True
    with t f mg1 count_true_update [of flags "snd (s_pointer (table_r t ! i))"]
    show ?thesis by (simp add: tally_for_tables dict_get_set_eq)
  next
    case False
    with t mg1 show ?thesis by (simp add: tally_for_tables dict_get_set_eq)
  qed
qed

lemma flag_vote_keeps_rows:
  assumes t: "tables mg = Some t" and wf: "rows_point_into_s t"
  shows "\<exists>b mg1 t1. flag_vote c mg = (Inr b, mg1) \<and> tables mg1 = Some t1 \<and>
           rows_point_into_s t1 \<and> map code (table_r t1) = map code (table_r t) \<and>
           (b \<longleftrightarrow> c \<in> set (map code (table_r t)))"
proof (cases "first_index (\<lambda>entry. code entry = c) (table_r t)")
  case None
  then have "c \<notin> set (map code (table_r t))"
    by (auto simp: first_index_None)
  moreover have "flag_vote c mg = (Inr False, mg)"
    using None t by (simp add: flag_vote_def)
  ultimately show ?thesis
    using t wf by (intro exI [of _ False] exI [of _ mg] exI [of _ t]) simp
next
  case (Some i)
  let ?e = "table_r t ! i"
  from first_index_Some [OF Some] have il: "i < length (table_r t)" and ic: "code ?e = c"
    by simp_all
  then have mem: "?e \<in> set (table_r t)" by simp
  with wf obtain flags where
    f: "dict_get (table_s t) (candidate ?e) = Some flags"
    and s: "snd (s_pointer ?e) < length flags"
    by (auto simp: rows_point_into_s_def list_all_iff split: option.splits)
  let ?t1 = "t\<lparr>table_r := (table_r t)[i := ?e\<lparr>flag := True\<rparr>],
               table_s := dict_set (candidate ?e) (flags[snd (s_pointer ?e) := True]) (table_s t)\<rparr>"
  have fv: "flag_vote c mg = (Inr True, mg\<lparr>tables := Some ?t1\<rparr>)"
    using t Some f s by (simp add: flag_vote_def Let_def)
  have codes: "map code (table_r ?t1) = map code (table_r t)"
    using il ic by (simp add: map_update list_update_same_conv)
  have "rows_point_into_s ?t1"
    unfolding rows_point_into_s_def list_all_iff
  proof
    fix row assume "row \<in> set (table_r ?t1)"
    then have "row = ?e\<lparr>flag := True\<rparr> \<or> row \<in> set (table_r t)"
      using set_update_subset_insert [of "table_r t" i "?e\<lparr>flag := True\<rparr>"] by auto
    then obtain row0 where r0: "row0 \<in> set (table_r t)" "candidate row = candidate row0"
        "s_pointer row = s_pointer row0"
      using mem by auto
    with wf obtain fl0 where
      "dict_get (table_s t) (candidate row0) = Some fl0" "snd (s_pointer row0) < length fl0"
      by (auto simp: rows_point_into_s_def list_all_iff split: option.splits)
    with r0 f s
    show "case dict_get (table_s ?t1) (candidate row) of
            None \<Rightarrow> False | Some flags \<Rightarrow> snd (s_pointer row) < length flags"
      by (auto simp: dict_get_set_eq)
  qed
  moreover have "c \<in> set (map code (table_r t))"
    using mem ic by auto
  ultimately show ?thesis
    using fv codes
    by (intro exI [of _ True] exI [of _ "mg\<lparr>tables := Some ?t1\<rparr>"] exI [of _ ?t1]) simp
qed

lemma flag_votes_keeps_rows:
  assumes "tables mg = Some t" "rows_point_into_s t"
  shows "\<exists>t1. tables (flag_votes cs mg) = Some t1 \<and> rows_point_into_s t1 \<and>
              map code (table_r t1) = map code (table_r t)"
  using assms
proof (induction cs arbitrary: mg t)
  case Nil
  then show ?case by (simp add: flag_votes_def)
next
  case (Cons c cs)
  from flag_vote_keeps_rows [OF Cons.prems, of c] obtain b mg1 t1 where
    1: "flag_vote c mg = (Inr b, mg1)" "tables mg1 = Some t1" "rows_point_into_s t1"
       "map code (table_r t1) = map code (table_r t)"
    by blast
  have "flag_votes (c # cs) mg = flag_votes cs mg1"
    using 1(1) by (simp add: flag_votes_def)
  with Cons.IH [OF 1(2,3)] 1(4) show ?case by simp
qed

lemma draw_ballot_codes_candidates:
  "draw_ballot_codes b cands (row, ac, rs) = (row', ac', rs') \<Longrightarrow>
   (\<lambda>x. snd (snd x)) ` set ac' \<subseteq> (\<lambda>x. snd (snd x)) ` set ac \<union> set cands"
proof (induction cands arbitrary: row ac rs)
  case Nil
  then show ?case by simp
next
  case (Cons cand cands)
  obtain c rs1 where c: "generate_confirmation_code_app rs = (c, rs1)"
    by (cases "generate_confirmation_code_app rs")
  with Cons.prems have
    "draw_ballot_codes b cands (dict_set cand c row, ac @ [(c, b, cand)], rs1) = (row', ac', rs')"
    by simp
  from Cons.IH [OF this] show ?case by auto
qed

lemma draw_table_p_candidates:
  "draw_table_p cands ns (p, ac, rs) = (p', ac', rs') \<Longrightarrow>
   (\<lambda>x. snd (snd x)) ` set ac' \<subseteq> (\<lambda>x. snd (snd x)) ` set ac \<union> set cands"
proof (induction ns arbitrary: p ac rs)
  case Nil
  then show ?case by simp
next
  case (Cons n ns)
  obtain row ac1 rs1 where
    d: "draw_ballot_codes (ballot_str n) cands ([], ac, rs) = (row, ac1, rs1)"
    by (cases "draw_ballot_codes (ballot_str n) cands ([], ac, rs)") auto
  with Cons.prems have
    "draw_table_p cands ns (dict_set (ballot_str n) row p, ac1, rs1) = (p', ac', rs')"
    by simp
  from Cons.IH [OF this] draw_ballot_codes_candidates [OF d] show ?case by auto
qed

lemma build_table_r_rows:
  "build_table_r q done rest = Inr rows \<Longrightarrow>
   \<forall>row \<in> set rows.
     candidate row \<in> (\<lambda>x. snd (snd x)) ` set rest \<and>
     snd (s_pointer row) < length (filter (\<lambda>x. snd (snd x) = candidate row) (done @ rest))"
proof (induction rest arbitrary: "done" rows)
  case Nil
  then show ?case by simp
next
  case (Cons x rest)
  obtain c b cand where x: "x = (c, b, cand)" by (cases x)
  from Cons.prems x obtain codes q_position rows' where
    rec: "build_table_r q (done @ [(c, b, cand)]) rest = Inr rows'"
    and rows: "rows = \<lparr>code = c, row_ballot_id = b, candidate = cand,
                       q_pointer = (b, q_position),
                       s_pointer = (cand, length (filter (\<lambda>x. snd (snd x) = cand) done)),
                       flag = False\<rparr> # rows'"
    by (auto simp: Let_def split: option.splits sum.splits)
  from Cons.IH [OF rec] have
    "\<forall>row \<in> set rows'.
       candidate row \<in> (\<lambda>x. snd (snd x)) ` set (x # rest) \<and>
       snd (s_pointer row) < length (filter (\<lambda>x. snd (snd x) = candidate row) (done @ x # rest))"
    using x by auto
  then show ?case using rows x by auto
qed

lemma build_table_s_get:
  "dict_get (build_table_s ac cands s) k =
     (if k \<in> set cands
      then Some (replicate (length (filter (\<lambda>x. snd (snd x) = k) ac)) False)
      else dict_get s k)"
  by (induction cands arbitrary: s) (auto simp: dict_get_set_eq)

lemma generate_tables_rows:
  assumes "generate_tables mg rs = (Inr t, mg0, rs')"
  shows "tables mg0 = Some t \<and> rows_point_into_s t"
proof -
  obtain p ac rs1 where
    p: "draw_table_p (generator_candidates mg) [0..<num_ballots mg] ([], [], rs) = (p, ac, rs1)"
    by (cases "draw_table_p (generator_candidates mg) [0..<num_ballots mg] ([], [], rs)") auto
  obtain q rs2 where q: "shuffle_table_q p ([], rs1) = (q, rs2)"
    by (cases "shuffle_table_q p ([], rs1)")
  from assms p q obtain r where
    r: "build_table_r q [] ac = Inr r"
    and t: "t = \<lparr>table_p = p, table_q = q, table_r = r,
                 table_s = build_table_s ac (generator_candidates mg) []\<rparr>"
    and mg0: "mg0 = mg\<lparr>tables := Some t\<rparr>"
    by (auto simp: generate_tables_def Let_def split: sum.splits)
  from draw_table_p_candidates [OF p]
  have cands: "(\<lambda>x. snd (snd x)) ` set ac \<subseteq> set (generator_candidates mg)" by simp
  from build_table_r_rows [OF r]
  have rows: "\<forall>row \<in> set r.
     candidate row \<in> (\<lambda>x. snd (snd x)) ` set ac \<and>
     snd (s_pointer row) < length (filter (\<lambda>x. snd (snd x) = candidate row) ac)"
    by simp
  have "rows_point_into_s t"
    unfolding rows_point_into_s_def list_all_iff
  proof
    fix row assume "row \<in> set (table_r t)"
    with t rows cands have "candidate row \<in> set (generator_candidates mg)"
      and "snd (s_pointer row) < length (filter (\<lambda>x. snd (snd x) = candidate row) ac)"
      by auto
    then show "case dict_get (table_s t) (candidate row) of
                 None \<Rightarrow> False | Some flags \<Rightarrow> snd (s_pointer row) < length flags"
      using t by (simp add: build_table_s_get)
  qed
  with mg0 show ?thesis by simp
qed

lemma flag_vote_sets_slot:
  assumes "flag_vote c mg = (Inr True, mg1)"
  shows "\<exists>t1 row flags.
           tables mg1 = Some t1 \<and> row \<in> set (table_r t1) \<and> code row = c \<and> flag row \<and>
           dict_get (table_s t1) (candidate row) = Some flags \<and>
           snd (s_pointer row) < length flags \<and> flags ! snd (s_pointer row)"
proof -
  from flag_vote_True [OF assms] obtain t i flags where
    i: "first_index (\<lambda>entry. code entry = c) (table_r t) = Some i"
    and s: "snd (s_pointer (table_r t ! i)) < length flags"
    and mg1: "mg1 = mg\<lparr>tables := Some (t\<lparr>table_r := (table_r t)[i := (table_r t ! i)\<lparr>flag := True\<rparr>],
                                     table_s := dict_set (candidate (table_r t ! i))
                                        (flags[snd (s_pointer (table_r t ! i)) := True]) (table_s t)\<rparr>)\<rparr>"
    by blast
  let ?e = "table_r t ! i"
  let ?row = "?e\<lparr>flag := True\<rparr>"
  let ?fl = "flags[snd (s_pointer ?e) := True]"
  let ?t1 = "t\<lparr>table_r := (table_r t)[i := ?row],
               table_s := dict_set (candidate ?e) ?fl (table_s t)\<rparr>"
  from first_index_Some [OF i] have il: "i < length (table_r t)" and ic: "code ?e = c"
    by simp_all
  have 1: "tables mg1 = Some ?t1" using mg1 by simp
  have 2: "?row \<in> set (table_r ?t1)" using il by (simp add: set_update_memI)
  have 3: "code ?row = c" "flag ?row" using ic by simp_all
  have 4: "dict_get (table_s ?t1) (candidate ?row) = Some ?fl"
    by (simp add: dict_get_set_eq)
  have 5: "snd (s_pointer ?row) < length ?fl" "?fl ! snd (s_pointer ?row)"
    using s by simp_all
  from 1 2 3 4 5 show ?thesis by blast
qed

text \<open>
  Claim C3. For every table set that \<open>generate_tables\<close> returns, whatever codes have
  been flagged since, and every confirmation code in table R: \<open>flag_vote\<close> returns
  true, having set the flag of a row with that code and the slot of table S the row
  points at; a second call with the same code returns true and leaves the generator,
  its tables and so the tally exactly as the first call left them. The first call
  raises the tally of each candidate by at most one and lowers none.
\<close>

theorem flag_vote_idempotent:
  assumes "generate_tables mg rs = (Inr t, mg0, rs')"
    and "c \<in> set (map code (table_r t))"
  shows "\<exists>mg1. flag_vote c (flag_votes cs mg0) = (Inr True, mg1) \<and>
               flag_vote c mg1 = (Inr True, mg1) \<and>
               get_tally (snd (flag_vote c mg1)) = get_tally mg1 \<and>
               (\<forall>cand. tally_for (flag_votes cs mg0) cand \<le> tally_for mg1 cand \<and>
                       tally_for mg1 cand \<le> tally_for (flag_votes cs mg0) cand + 1) \<and>
               (\<exists>t1 row flags.
                  tables mg1 = Some t1 \<and> row \<in> set (table_r t1) \<and> code row = c \<and>
                  flag row \<and> dict_get (table_s t1) (candidate row) = Some flags \<and>
                  snd (s_pointer row) < length flags \<and> flags ! snd (s_pointer row))"
proof -
  from generate_tables_rows [OF assms(1)]
  have "tables mg0 = Some t" "rows_point_into_s t" by simp_all
  from flag_votes_keeps_rows [OF this, of cs] obtain t1 where
    t1: "tables (flag_votes cs mg0) = Some t1" "rows_point_into_s t1"
        "map code (table_r t1) = map code (table_r t)"
    by blast
  from flag_vote_keeps_rows [OF t1(1,2), of c] t1(3) assms(2) obtain mg1 where
    once: "flag_vote c (flag_votes cs mg0) = (Inr True, mg1)"
    by auto
  from flag_vote_twice [OF once] have twice: "flag_vote c mg1 = (Inr True, mg1)" .
  have tally: "\<forall>cand. tally_for (flag_votes cs mg0) cand \<le> tally_for mg1 cand \<and>
               tally_for mg1 cand \<le> tally_for (flag_votes cs mg0) cand + 1"
    using flag_vote_tally [OF once] by blast
  from twice have same: "get_tally (snd (flag_vote c mg1)) = get_tally mg1" by simp
  from once twice same tally flag_vote_sets_slot [OF once] show ?thesis
    by (intro exI [of _ mg1] conjI)
qed

lemma ballot_str_0: "ballot_str 0 = ''ballot_000000''"
  by code_simp

lemma first16_codes:
  "generate_confirmation_code_app (first16_tape, 0) = (''FFFF'', (first16_tape, 16))"
  "generate_confirmation_code_app (first16_tape, 16) = (''0000'', (first16_tape, 32))"
  "qrng 8 (first16_tape, 32) = (''00000000'', (first16_tape, 40))"
  by (simp_all add: generate_confirmation_code_app_def first16_tape_def qrng_eval)

lemma one_ballot_generated:
  "generate_tables (MixnetGenerator_init [''Alice'', ''Bob''] 1) (first16_tape, 0) =
   (Inr one_ballot_tables,
    (MixnetGenerator_init [''Alice'', ''Bob''] 1)\<lparr>tables := Some one_ballot_tables\<rparr>,
    (first16_tape, 40))"
  by (simp add: generate_tables_def MixnetGenerator_init_def ballot_str_0 first16_codes
      quantum_shuffle_def dict_values_def int_base2_def dict_get_def one_ballot_tables_def
      Let_def)

theorem flag_vote_idempotent_witness:
  "generate_tables (MixnetGenerator_init [''Alice'', ''Bob''] 1) (first16_tape, 0) =
     (Inr one_ballot_tables,
      (MixnetGenerator_init [''Alice'', ''Bob''] 1)\<lparr>tables := Some one_ballot_tables\<rparr>,
      (first16_tape, 40)) \<and>
   ''FFFF'' \<in> set (map code (table_r one_ballot_tables)) \<and>
   (\<exists>mg1. flag_vote ''FFFF''
            ((MixnetGenerator_init [''Alice'', ''Bob''] 1)\<lparr>tables := Some one_ballot_tables\<rparr>) =
            (Inr True, mg1) \<and>
          flag_vote ''FFFF'' mg1 = (Inr True, mg1) \<and>
          get_tally (snd (flag_vote ''FFFF'' mg1)) = get_tally mg1)"
proof -
  have m: "''FFFF'' \<in> set (map code (table_r one_ballot_tables))"
    by (simp add: one_ballot_tables_def)
  from flag_vote_idempotent [OF one_ballot_generated m, of "[]"]
  have "\<exists>mg1. flag_vote ''FFFF''
            ((MixnetGenerator_init [''Alice'', ''Bob''] 1)\<lparr>tables := Some one_ballot_tables\<rparr>) =
            (Inr True, mg1) \<and>
          flag_vote ''FFFF'' mg1 = (Inr True, mg1) \<and>
          get_tally (snd (flag_vote ''FFFF'' mg1)) = get_tally mg1"
    by (auto simp: flag_votes_def)
  with one_ballot_generated m show ?thesis by (intro conjI)
qed

lemma zero_codes:
  "generate_confirmation_code_app (zero_tape, 0) = (''0000'', (zero_tape, 16))"
  "generate_confirmation_code_app (zero_tape, 16) = (''0000'', (zero_tape, 32))"
  "qrng 8 (zero_tape, 32) = (''00000000'', (zero_tape, 40))"
  "generate_ballot_id (zero_tape, 0) = (''000000000000'', (zero_tape, 12))"
  "generate_confirmation_code (zero_tape, 12) = (''0000000000000000'', (zero_tape, 28))"
  "generate_confirmation_code (zero_tape, 28) = (''0000000000000000'', (zero_tape, 44))"
  by (simp_all add: generate_confirmation_code_app_def generate_ballot_id_def
      generate_confirmation_code_def zero_tape_def qrng_eval)

lemma zero_tables_generated:
  "generate_tables (MixnetGenerator_init [''Alice'', ''Bob''] 1) (zero_tape, 0) =
   (Inr \<lparr>table_p = [(''ballot_000000'', [(''Alice'', ''0000''), (''Bob'', ''0000'')])],
         table_q = [(''ballot_000000'', [''0000'', ''0000''])],
         table_r = [\<lparr>code = ''0000'', row_ballot_id = ''ballot_000000'', candidate = ''Alice'',
                      q_pointer = (''ballot_000000'', 0), s_pointer = (''Alice'', 0),
                      flag = False\<rparr>,
                    \<lparr>code = ''0000'', row_ballot_id = ''ballot_000000'', candidate = ''Bob'',
                      q_pointer = (''ballot_000000'', 0), s_pointer = (''Bob'', 0),
                      flag = False\<rparr>],
         table_s = [(''Alice'', [False]), (''Bob'', [False])]\<rparr>,
    (MixnetGenerator_init [''Alice'', ''Bob''] 1)\<lparr>tables := Some
       \<lparr>table_p = [(''ballot_000000'', [(''Alice'', ''0000''), (''Bob'', ''0000'')])],
         table_q = [(''ballot_000000'', [''0000'', ''0000''])],
         table_r = [\<lparr>code = ''0000'', row_ballot_id = ''ballot_000000'', candidate = ''Alice'',
                      q_pointer = (''ballot_000000'', 0), s_pointer = (''Alice'', 0),
                      flag = False\<rparr>,
                    \<lparr>code = ''0000'', row_ballot_id = ''ballot_000000'', candidate = ''Bob'',
                      q_pointer = (''ballot_000000'', 0), s_pointer = (''Bob'', 0),
                      flag = False\<rparr>],
         table_s = [(''Alice'', [False]), (''Bob'', [False])]\<rparr>\<rparr>,
    (zero_tape, 40))"
  by (simp add: generate_tables_def MixnetGenerator_init_def ballot_str_0 zero_codes
      quantum_shuffle_def dict_values_def int_base2_def dict_get_def Let_def)

lemma zero_pool_created:
  "create_ballot_pool ''election_1'' [''Alice'', ''Bob''] 1 (SharedData_init, (zero_tape, 0)) =
   (SharedData_init\<lparr>ballot_pools :=
      [(''election_1'',
        [\<lparr>ballot_ballot_id = ''000000000000'', ballot_voter_id = [],
          ballot_election_id = ''election_1'',
          ballot_confirmation_codes =
            [(''Alice'', ''0000000000000000''), (''Bob'', ''0000000000000000'')],
          is_cast = False, is_spoiled = False, is_allocated = False,
          selected_candidate = [], encrypted_vote = [], cast_time = [],
          allocation_time = []\<rparr>])]\<rparr>,
    (zero_tape, 44))"
  by (simp add: create_ballot_pool_def zero_codes SharedData_init_def)

text \<open>
  Claim C4 says that no two (ballot, candidate) pairs of a generated pool share a
  confirmation code, each draw being retried on collision. The code does not retry:
  every code is the next draw from the random source. When the source repeats itself,
  here on the all-zero tape, the two candidates of the one ballot get the same code, in
  \<open>generate_tables\<close> of quantegrity_app.py and in \<open>_create_ballot_pool\<close> of
  shared_state.py.
\<close>

theorem confirmation_codes_collide:
  "(\<exists>t mg0 rs'.
      generate_tables (MixnetGenerator_init [''Alice'', ''Bob''] 1) (zero_tape, 0) =
        (Inr t, mg0, rs') \<and>
      table_p t = [(''ballot_000000'', [(''Alice'', ''0000''), (''Bob'', ''0000'')])] \<and>
      map code (table_r t) = [''0000'', ''0000'']) \<and>
   (\<exists>sd rs' ballot.
      create_ballot_pool ''election_1'' [''Alice'', ''Bob''] 1 (SharedData_init, (zero_tape, 0)) =
        (sd, rs') \<and>
      dict_get (ballot_pools sd) ''election_1'' = Some [ballot] \<and>
      ballot_confirmation_codes ballot =
        [(''Alice'', ''0000000000000000''), (''Bob'', ''0000000000000000'')])"
  using zero_tables_generated zero_pool_created by (simp add: dict_get_def)

section \<open>The ballot life cycle\<close>

lemma dict_get_set_other: "dict_get (dict_set k v d) k' = (if k' = k then Some v else dict_get d k')"
  by (induction d) (auto simp: dict_get_def)




















section \<open>Spoiling and the tally\<close>

lemma reveal_row_pointer: "simple_q_pointer (reveal_row bid row) = simple_q_pointer row"
  by (simp add: reveal_row_def)

lemma filed_ballot_id:
  assumes "ballots_filed_by_id sd" "get_ballot sd bid = Some ballot"
  shows "ballot_ballot_id ballot = bid"
proof -
  from assms(2) have "(bid, ballot) \<in> set (ballots sd)"
    by (simp add: get_ballot_def dict_get_def map_of_SomeD)
  with assms(1) show ?thesis
    by (auto simp: ballots_filed_by_id_def list_all_iff)
qed

lemma spoil_keeps_counted_data:
  assumes "ballots_filed_by_id sd"
  shows "elections (snd (shared_spoil_ballot vid bid now sd)) = elections sd \<and>
         bulletin_board (snd (shared_spoil_ballot vid bid now sd)) = bulletin_board sd \<and>
         count_entry eid (snd (shared_spoil_ballot vid bid now sd)) = count_entry eid sd"
proof (cases "get_voter sd vid")
  case None
  then show ?thesis by (simp add: shared_spoil_ballot_def)
next
  case (Some voter)
  show ?thesis
  proof (cases "get_ballot sd bid")
    case None
    with Some show ?thesis by (simp add: shared_spoil_ballot_def)
  next
    case (Some ballot)
    from filed_ballot_id [OF assms Some] have id: "ballot_ballot_id ballot = bid" .
    let ?sd' = "snd (shared_spoil_ballot vid bid now sd)"
    have b: "ballots ?sd' = dict_set bid (ballot\<lparr>is_spoiled := True, cast_time := now\<rparr>) (ballots sd)"
      and e: "elections ?sd' = elections sd"
      and bb: "bulletin_board ?sd' = bulletin_board sd"
      using \<open>get_voter sd vid = Some voter\<close> Some id
      by (simp_all add: shared_spoil_ballot_def Let_def update_voter_def update_ballot_def
          save_data_def)
    have "count_entry eid ?sd' results entry = count_entry eid sd results entry"
      for results entry
      using Some b
      by (simp add: count_entry_def get_ballot_def dict_get_set_other)
    then have "count_entry eid ?sd' = count_entry eid sd" by (intro ext)
    with e bb show ?thesis by simp
  qed
qed

lemma spoil_keeps_results:
  assumes "ballots_filed_by_id sd"
  shows "fst (get_election_results eid t (snd (shared_spoil_ballot vid bid now sd))) =
         fst (get_election_results eid t sd)"
  using spoil_keeps_counted_data [OF assms, of vid bid now eid]
  by (simp add: get_election_results_def get_election_def get_all_bulletin_entries_def Let_def
      split: option.splits)

lemma filed_after_update:
  assumes "ballots_filed_by_id sd"
  shows "ballots_filed_by_id (update_ballot ballot now sd)"
proof -
  have "\<And>d. list_all (\<lambda>(k, x). ballot_ballot_id x = k) d \<Longrightarrow>
        list_all (\<lambda>(k, x). ballot_ballot_id x = k) (dict_set (ballot_ballot_id ballot) ballot d)"
  proof -
    fix d :: "(string \<times> Ballot) list"
    show "list_all (\<lambda>(k, x). ballot_ballot_id x = k) d \<Longrightarrow>
        list_all (\<lambda>(k, x). ballot_ballot_id x = k) (dict_set (ballot_ballot_id ballot) ballot d)"
      by (induction d) auto
  qed
  with assms show ?thesis
    by (simp add: ballots_filed_by_id_def update_ballot_def save_data_def)
qed

lemma filed_initially: "ballots_filed_by_id SharedData_init"
  by (simp add: ballots_filed_by_id_def SharedData_init_def)

text \<open>
  Claim C6. Spoiling or auditing a ballot changes no set of table S and leaves the
  tally as it was. For every ballot with status \<open>Not Cast\<close>, \<open>spoil_ballot\<close> of
  Scantegrity_simplified.py returns normally, sets the flag of every row of the tables R
  that points at the ballot, changes no other row and no pointer, and leaves table S
  and the tally of \<open>get_tally\<close> unchanged; \<open>audit_ballot\<close> returns normally and leaves
  table S and the tally unchanged as well. In shared_state.py, where the results are
  counted from the vote entries of the bulletin board and the ballots are filed under
  their ballot ids, \<open>spoil_ballot\<close> leaves the results of \<open>get_election_results\<close>
  unchanged.
\<close>

theorem spoiling_leaves_tally:
  assumes "status b = ''Not Cast''"
  shows "(\<exists>b' es'.
            spoil_ballot b es = (Inr (), b', es') \<and> status b' = ''Spoiled'' \<and>
            simple_table_s es' = simple_table_s es \<and>
            simple_get_tally es' = simple_get_tally es \<and>
            tables_r es' = map (map (reveal_row (simple_ballot_id b))) (tables_r es) \<and>
            map (map simple_q_pointer) (tables_r es') = map (map simple_q_pointer) (tables_r es) \<and>
            (\<forall>tab \<in> set (tables_r es'). \<forall>row \<in> set tab.
               fst (simple_q_pointer row) = simple_ballot_id b \<longrightarrow> simple_flag row)) \<and>
         (\<forall>row. fst (simple_q_pointer row) \<noteq> simple_ballot_id b \<longrightarrow>
                reveal_row (simple_ballot_id b) row = row) \<and>
         (\<exists>b' es'.
            audit_ballot b es = (Inr (), b', es') \<and> status b' = ''Audited'' \<and>
            simple_table_s es' = simple_table_s es \<and>
            simple_get_tally es' = simple_get_tally es) \<and>
         (ballots_filed_by_id sd \<longrightarrow>
            fst (get_election_results eid t (snd (shared_spoil_ballot vid bid now sd))) =
              fst (get_election_results eid t sd))"
proof (intro conjI)
  let ?es' = "es\<lparr>spoiled_ballots := spoiled_ballots es @ [simple_ballot_id b],
                 tables_r := map (map (reveal_row (simple_ballot_id b))) (tables_r es)\<rparr>"
  have sp: "spoil_ballot b es = (Inr (), b\<lparr>status := ''Spoiled''\<rparr>, ?es')"
    using assms(1) by (simp add: spoil_ballot_def)
  have p: "map (map simple_q_pointer) (tables_r ?es') = map (map simple_q_pointer) (tables_r es)"
    by (simp add: reveal_row_pointer comp_def)
  have f: "\<forall>tab \<in> set (tables_r ?es'). \<forall>row \<in> set tab.
               fst (simple_q_pointer row) = simple_ballot_id b \<longrightarrow> simple_flag row"
    by (auto simp: reveal_row_def)
  show "\<exists>b' es'.
            spoil_ballot b es = (Inr (), b', es') \<and> status b' = ''Spoiled'' \<and>
            simple_table_s es' = simple_table_s es \<and>
            simple_get_tally es' = simple_get_tally es \<and>
            tables_r es' = map (map (reveal_row (simple_ballot_id b))) (tables_r es) \<and>
            map (map simple_q_pointer) (tables_r es') = map (map simple_q_pointer) (tables_r es) \<and>
            (\<forall>tab \<in> set (tables_r es'). \<forall>row \<in> set tab.
               fst (simple_q_pointer row) = simple_ballot_id b \<longrightarrow> simple_flag row)"
    using sp p f
    by (intro exI [of _ "b\<lparr>status := ''Spoiled''\<rparr>"] exI [of _ ?es'])
       (simp add: simple_get_tally_def)
next
  show "\<forall>row. fst (simple_q_pointer row) \<noteq> simple_ballot_id b \<longrightarrow>
                reveal_row (simple_ballot_id b) row = row"
    by (simp add: reveal_row_def)
next
  show "\<exists>b' es'.
            audit_ballot b es = (Inr (), b', es') \<and> status b' = ''Audited'' \<and>
            simple_table_s es' = simple_table_s es \<and>
            simple_get_tally es' = simple_get_tally es"
    using assms(1) by (simp add: audit_ballot_def simple_get_tally_def)
next
  show "ballots_filed_by_id sd \<longrightarrow>
            fst (get_election_results eid t (snd (shared_spoil_ballot vid bid now sd))) =
              fst (get_election_results eid t sd)"
    using spoil_keeps_results by blast
qed

theorem spoiling_leaves_tally_witness:
  "status mayor_ballot = ''Not Cast'' \<and> ballots_filed_by_id one_voter_data \<and>
   (\<exists>b' es'.
      spoil_ballot mayor_ballot mayor_election = (Inr (), b', es') \<and>
      status b' = ''Spoiled'' \<and>
      simple_table_s es' = simple_table_s mayor_election \<and>
      simple_get_tally es' = simple_get_tally mayor_election) \<and>
   fst (fst (shared_spoil_ballot ''0000000000000001'' ''000000000001'' ''t2'' one_voter_data)) \<and>
   fst (get_election_results ''election_1'' ''t3''
          (snd (shared_spoil_ballot ''0000000000000001'' ''000000000001'' ''t2'' one_voter_data))) =
     fst (get_election_results ''election_1'' ''t3'' one_voter_data)"
proof -
  have s: "status mayor_ballot = ''Not Cast''"
    by (simp add: mayor_ballot_def)
  have f: "ballots_filed_by_id one_voter_data"
    by (simp add: ballots_filed_by_id_def one_voter_data_def SharedData_init_def)
  have d: "fst (fst (shared_spoil_ballot ''0000000000000001'' ''000000000001'' ''t2''
             one_voter_data))"
    by (simp add: shared_spoil_ballot_def get_voter_def get_ballot_def dict_get_def
        one_voter_data_def SharedData_init_def Let_def)
  note t = spoiling_leaves_tally [OF s, of mayor_election one_voter_data "''election_1''" "''t3''"
      "''0000000000000001''" "''000000000001''" "''t2''"]
  from t have 1: "\<exists>b' es'.
      spoil_ballot mayor_ballot mayor_election = (Inr (), b', es') \<and>
      status b' = ''Spoiled'' \<and>
      simple_table_s es' = simple_table_s mayor_election \<and>
      simple_get_tally es' = simple_get_tally mayor_election"
    by blast
  from t f have 2: "fst (get_election_results ''election_1'' ''t3''
          (snd (shared_spoil_ballot ''0000000000000001'' ''000000000001'' ''t2'' one_voter_data))) =
     fst (get_election_results ''election_1'' ''t3'' one_voter_data)"
    by blast
  from s f 1 d 2 show ?thesis by (intro conjI)
qed

end
